(* ===== verification/Prelude.thy ===== *)
theory Prelude
  imports Main
begin

text \<open>
  Shared vocabulary of the model of \<^verbatim>\<open>src/layers/generate_layers.py\<close>.
  A Python statement that may raise is a value of a sum type \<open>'e + 'a\<close>, with
  \<open>Inl\<close> the exception; \<open>bindE\<close> sequences two such statements and stops at the
  first exception, as Python does. \<open>mapE\<close> is a loop (or a list comprehension)
  over a list whose body may raise: it returns the list of results, or the
  exception of the first element whose body raised. Statements that also
  change the outside world (files, standard output) are functions
  \<open>'s \<Rightarrow> ('e + 'a) \<times> 's\<close>: the world after an exception is kept, because files
  written before the exception stay written.
\<close>

named_theorems exc_simps "evaluation rules of the exception model"

section \<open>Exceptions as sums\<close>

definition bindE :: "'e + 'a \<Rightarrow> ('a \<Rightarrow> 'e + 'b) \<Rightarrow> 'e + 'b" where
  "bindE m f = (case m of Inl e \<Rightarrow> Inl e | Inr x \<Rightarrow> f x)"

lemma bindE_Inl [simp, exc_simps]: "bindE (Inl e) f = Inl e"
  by (simp add: bindE_def)

lemma bindE_Inr [simp, exc_simps]: "bindE (Inr x) f = f x"
  by (simp add: bindE_def)

lemma bindE_eq_Inr_iff [simp]:
  "bindE m f = Inr y \<longleftrightarrow> (\<exists>x. m = Inr x \<and> f x = Inr y)"
  by (cases m) simp_all

lemma bindE_eq_Inl_iff:
  "bindE m f = Inl e \<longleftrightarrow> m = Inl e \<or> (\<exists>x. m = Inr x \<and> f x = Inl e)"
  by (cases m) simp_all

fun mapE :: "('a \<Rightarrow> 'e + 'b) \<Rightarrow> 'a list \<Rightarrow> 'e + 'b list" where
  "mapE f [] = Inr []"
| "mapE f (x # xs) = bindE (f x) (\<lambda>y. bindE (mapE f xs) (\<lambda>ys. Inr (y # ys)))"

lemma mapE_Inr_iff:
  "mapE f xs = Inr ys \<longleftrightarrow> list_all2 (\<lambda>x y. f x = Inr y) xs ys"
proof (induction xs arbitrary: ys)
  case Nil
  then show ?case by auto
next
  case (Cons x xs)
  then show ?case by (cases ys) auto
qed

lemma mapE_length: "mapE f xs = Inr ys \<Longrightarrow> length ys = length xs"
  by (auto simp: mapE_Inr_iff dest: list_all2_lengthD)

lemma mapE_nth:
  "mapE f xs = Inr ys \<Longrightarrow> i < length xs \<Longrightarrow> f (xs ! i) = Inr (ys ! i)"
  by (auto simp: mapE_Inr_iff dest: list_all2_nthD)

lemma mapE_all_Inr:
  "(\<And>x. x \<in> set xs \<Longrightarrow> f x = Inr (g x)) \<Longrightarrow> mapE f xs = Inr (map g xs)"
  by (induction xs) simp_all

lemma mapE_set_Inr:
  "mapE f xs = Inr ys \<Longrightarrow> y \<in> set ys \<Longrightarrow> \<exists>x \<in> set xs. f x = Inr y"
  by (metis in_set_conv_nth mapE_length mapE_nth nth_mem)

lemma list_all2_in_set2: "list_all2 P xs ys \<Longrightarrow> y \<in> set ys \<Longrightarrow> \<exists>x \<in> set xs. P x y"
  by (induction xs ys rule: list_all2_induct) auto

lemma mapE_cong_Inr:
  "mapE f xs = Inr ys \<Longrightarrow> (\<And>x y. x \<in> set xs \<Longrightarrow> f x = Inr y \<Longrightarrow> g y = Inr y) \<Longrightarrow>
   mapE g ys = Inr ys"
proof -
  assume ys: "mapE f xs = Inr ys"
    and fg: "\<And>x y. x \<in> set xs \<Longrightarrow> f x = Inr y \<Longrightarrow> g y = Inr y"
  have "\<And>y. y \<in> set ys \<Longrightarrow> g y = Inr (id y)"
    using ys fg by (auto dest: mapE_set_Inr)
  then show ?thesis by (drule_tac mapE_all_Inr) simp
qed

lemma mapE_map_eq:
  "mapE f xs = Inr ys \<Longrightarrow> (\<And>x y. x \<in> set xs \<Longrightarrow> f x = Inr y \<Longrightarrow> g y = h x) \<Longrightarrow>
   map g ys = map h xs"
proof (induction xs arbitrary: ys)
  case Nil
  then show ?case by simp
next
  case (Cons x xs)
  then show ?case by (auto simp: bindE_def split: sum.splits)
qed

lemma mapE_Inr_ex:
  "(\<exists>ys. mapE f xs = Inr ys) \<longleftrightarrow> (\<forall>x \<in> set xs. \<exists>y. f x = Inr y)"
  by (induction xs) auto

lemma mapE_Inl_split:
  "mapE f xs = Inl e \<Longrightarrow>
   \<exists>pre x post. xs = pre @ x # post \<and> (\<forall>p \<in> set pre. \<exists>y. f p = Inr y) \<and> f x = Inl e"
proof (induction xs)
  case Nil
  then show ?case by simp
next
  case (Cons a xs)
  show ?case
  proof (cases "f a")
    case (Inl e')
    with Cons.prems have "e' = e" by simp
    with Inl show ?thesis by (metis append_Nil empty_iff list.set(1))
  next
    case (Inr y)
    with Cons.prems have "mapE f xs = Inl e" by (auto simp: bindE_def split: sum.splits)
    with Cons.IH obtain pre x post where
      "xs = pre @ x # post" "\<forall>p \<in> set pre. \<exists>y. f p = Inr y" "f x = Inl e"
      by blast
    with Inr show ?thesis by (metis Cons_eq_appendI set_ConsD)
  qed
qed

text \<open>The first element whose body raises determines the exception.\<close>

lemma mapE_first_Inl:
  "\<forall>x \<in> set xs. \<exists>y. f x = Inr y \<Longrightarrow> f y = Inl e \<Longrightarrow> mapE f (xs @ y # zs) = Inl e"
proof (induction xs)
  case (Cons a xs)
  then obtain b where "f a = Inr b" by auto
  with Cons show ?case by simp
qed simp

text \<open>An exception that neither part of a sequence raises is not raised by it.\<close>

lemma bindE_never: "m \<noteq> Inl e \<Longrightarrow> (\<And>x. f x \<noteq> Inl e) \<Longrightarrow> bindE m f \<noteq> Inl e"
  by (cases m) simp_all

lemma mapE_never: "(\<And>x. f x \<noteq> Inl e) \<Longrightarrow> mapE f xs \<noteq> Inl e"
  by (induction xs) (simp_all add: bindE_never)

section \<open>Exceptions with a world\<close>

type_synonym ('s, 'e, 'a) sexn = "'s \<Rightarrow> ('e + 'a) \<times> 's"

definition returnS :: "'a \<Rightarrow> ('s, 'e, 'a) sexn" where
  "returnS x = (\<lambda>s. (Inr x, s))"

definition raiseS :: "'e \<Rightarrow> ('s, 'e, 'a) sexn" where
  "raiseS e = (\<lambda>s. (Inl e, s))"

definition bindS :: "('s, 'e, 'a) sexn \<Rightarrow> ('a \<Rightarrow> ('s, 'e, 'b) sexn) \<Rightarrow> ('s, 'e, 'b) sexn" where
  "bindS m f = (\<lambda>s. case m s of (Inl e, s') \<Rightarrow> (Inl e, s') | (Inr x, s') \<Rightarrow> f x s')"

text \<open>\<open>liftS\<close> runs a pure statement that may raise without touching the world.\<close>

definition liftS :: "'e + 'a \<Rightarrow> ('s, 'e, 'a) sexn" where
  "liftS r = (\<lambda>s. (r, s))"

lemma returnS_apply [simp, exc_simps]: "returnS x s = (Inr x, s)"
  by (simp add: returnS_def)

lemma raiseS_apply [simp, exc_simps]: "raiseS e s = (Inl e, s)"
  by (simp add: raiseS_def)

lemma liftS_apply [simp, exc_simps]: "liftS r s = (r, s)"
  by (simp add: liftS_def)

lemma bindS_apply [exc_simps]:
  "bindS m f s = (case m s of (Inl e, s') \<Rightarrow> (Inl e, s') | (Inr x, s') \<Rightarrow> f x s')"
  by (simp add: bindS_def)

lemma bindS_Inr [simp]: "m s = (Inr x, s') \<Longrightarrow> bindS m f s = f x s'"
  by (simp add: bindS_def)

lemma bindS_Inl [simp]: "m s = (Inl e, s') \<Longrightarrow> bindS m f s = (Inl e, s')"
  by (simp add: bindS_def)

lemma bindS_assoc: "bindS (bindS m f) g = bindS m (\<lambda>x. bindS (f x) g)"
  by (rule ext) (simp add: bindS_def split: prod.splits sum.splits)

text \<open>
  A property of the world that every step keeps is kept by their sequence,
  whether or not an exception is raised on the way.
\<close>

lemma bindS_preserves:
  assumes "\<And>s. P s \<Longrightarrow> P (snd (m s))"
    and "\<And>x s. P s \<Longrightarrow> P (snd (f x s))"
    and "P s"
  shows "P (snd (bindS m f s))"
proof -
  obtain r s' where ms: "m s = (r, s')" by (cases "m s")
  from assms(1) [OF assms(3)] ms have "P s'" by simp
  then show ?thesis
    using assms(2) [OF \<open>P s'\<close>] by (cases r) (simp_all add: bindS_def ms)
qed

end
