(* ===== verification/PyDict.thy ===== *)
theory PyDict
  imports Prelude
begin

text \<open>
  Python's \<open>dict\<close>, as the program uses it on the objects \<open>json.load\<close> returns:
  an insertion-ordered association list with distinct keys. \<open>d.get(k)\<close> is
  \<open>dict_get\<close>; \<open>d[k] = v\<close> is \<open>dict_setitem\<close>, which overwrites the value of an
  existing key in place and appends a new key at the end; \<open>del d[k]\<close> is
  \<open>dict_delitem\<close>, which is \<open>None\<close> where Python raises \<open>KeyError\<close>. The
  lemmas refine each operation to the map \<open>map_of d\<close> it represents and show
  that distinct keys (\<open>dict_wf\<close>) are kept.
\<close>

type_synonym ('k, 'v) pydict = "('k \<times> 'v) list"

definition dict_wf :: "('k, 'v) pydict \<Rightarrow> bool" where
  "dict_wf d \<longleftrightarrow> distinct (map fst d)"

definition dict_get :: "('k, 'v) pydict \<Rightarrow> 'k \<Rightarrow> 'v option" where
  "dict_get d k = map_of d k"

fun dict_setitem :: "('k, 'v) pydict \<Rightarrow> 'k \<Rightarrow> 'v \<Rightarrow> ('k, 'v) pydict" where
  "dict_setitem [] k v = [(k, v)]"
| "dict_setitem ((a, b) # ps) k v =
     (if a = k then (k, v) # ps else (a, b) # dict_setitem ps k v)"

fun dict_delitem :: "('k, 'v) pydict \<Rightarrow> 'k \<Rightarrow> ('k, 'v) pydict option" where
  "dict_delitem [] k = None"
| "dict_delitem ((a, b) # ps) k =
     (if a = k then Some ps else map_option (Cons (a, b)) (dict_delitem ps k))"

section \<open>Refinement to maps\<close>

lemma map_of_dict_setitem [simp]:
  "map_of (dict_setitem d k v) = (map_of d)(k \<mapsto> v)"
  by (induction d k v rule: dict_setitem.induct) (auto simp: fun_eq_iff)

lemma keys_dict_setitem [simp]:
  "fst ` set (dict_setitem d k v) = insert k (fst ` set d)"
  by (induction d k v rule: dict_setitem.induct) auto

lemma dict_setitem_existing_keys:
  "k \<in> fst ` set d \<Longrightarrow> map fst (dict_setitem d k v) = map fst d"
  by (induction d k v rule: dict_setitem.induct) auto

lemma dict_setitem_new_key:
  "k \<notin> fst ` set d \<Longrightarrow> dict_setitem d k v = d @ [(k, v)]"
  by (induction d k v rule: dict_setitem.induct) auto

lemma dict_wf_setitem [simp]: "dict_wf d \<Longrightarrow> dict_wf (dict_setitem d k v)"
proof (induction d k v rule: dict_setitem.induct)
  case (1 k v)
  then show ?case by (simp add: dict_wf_def)
next
  case (2 a b ps k v)
  have "a \<notin> fst ` set (dict_setitem ps k v)" if "a \<noteq> k" "a \<notin> fst ` set ps"
    using that by simp
  with 2 show ?case by (auto simp: dict_wf_def simp del: keys_dict_setitem)
qed

lemma dict_setitem_same [simp]:
  "dict_setitem (dict_setitem d k v) k w = dict_setitem d k w"
  by (induction d k v rule: dict_setitem.induct) auto

lemma dict_setitem_lookup_id:
  "map_of d k = Some v \<Longrightarrow> dict_setitem d k v = d"
  by (induction d k v rule: dict_setitem.induct) (auto split: if_splits)

lemma dict_delitem_None_iff:
  "dict_delitem d k = None \<longleftrightarrow> k \<notin> fst ` set d"
  by (induction d k rule: dict_delitem.induct) auto

lemma dict_delitem_Cons_ne:
  "a \<noteq> k \<Longrightarrow> dict_delitem ((a, b) # ps) k = Some d' \<Longrightarrow>
   \<exists>z. dict_delitem ps k = Some z \<and> d' = (a, b) # z"
  by auto

lemma dict_delitem_Some_keys:
  "dict_delitem d k = Some d' \<Longrightarrow> dict_wf d \<Longrightarrow> fst ` set d' = fst ` set d - {k}"
proof (induction d k arbitrary: d' rule: dict_delitem.induct)
  case (1 k)
  then show ?case by simp
next
  case (2 a b ps k)
  show ?case
  proof (cases "a = k")
    case True
    with "2.prems" show ?thesis by (auto simp: dict_wf_def)
  next
    case False
    with "2.prems"(1) obtain z where z: "dict_delitem ps k = Some z" "d' = (a, b) # z"
      by (blast dest: dict_delitem_Cons_ne)
    from "2.prems"(2) have "dict_wf ps" by (simp add: dict_wf_def)
    with "2.IH" [OF False z(1)] z(2) False show ?thesis by auto
  qed
qed

lemma dict_wf_delitem:
  "dict_delitem d k = Some d' \<Longrightarrow> dict_wf d \<Longrightarrow> dict_wf d'"
proof (induction d k arbitrary: d' rule: dict_delitem.induct)
  case (1 k)
  then show ?case by simp
next
  case (2 a b ps k)
  show ?case
  proof (cases "a = k")
    case True
    with "2.prems" show ?thesis by (auto simp: dict_wf_def)
  next
    case False
    with "2.prems"(1) obtain z where z: "dict_delitem ps k = Some z" "d' = (a, b) # z"
      by (blast dest: dict_delitem_Cons_ne)
    from "2.prems"(2) have ps: "dict_wf ps" "a \<notin> fst ` set ps" by (simp_all add: dict_wf_def)
    from dict_delitem_Some_keys [OF z(1) ps(1)] ps(2) have "a \<notin> fst ` set z" by blast
    with "2.IH" [OF False z(1) ps(1)] z(2) show ?thesis by (simp add: dict_wf_def)
  qed
qed

lemma dict_delitem_map_of:
  "dict_delitem d k = Some d' \<Longrightarrow> dict_wf d \<Longrightarrow> map_of d' = (map_of d)(k := None)"
proof (induction d k arbitrary: d' rule: dict_delitem.induct)
  case (1 k)
  then show ?case by simp
next
  case (2 a b ps k)
  show ?case
  proof (cases "a = k")
    case True
    with "2.prems" show ?thesis
      by (auto simp: dict_wf_def fun_eq_iff map_of_eq_None_iff)
  next
    case False
    with "2.prems"(1) obtain z where z: "dict_delitem ps k = Some z" "d' = (a, b) # z"
      by (blast dest: dict_delitem_Cons_ne)
    from "2.prems"(2) have "dict_wf ps" by (simp add: dict_wf_def)
    with "2.IH" [OF False z(1)] z(2) False show ?thesis by (auto simp: fun_eq_iff)
  qed
qed

lemma dict_delitem_subset: "dict_delitem d k = Some d' \<Longrightarrow> set d' \<subseteq> set d"
  by (induction d k arbitrary: d' rule: dict_delitem.induct) (auto split: if_splits)

lemma dict_wf_Nil [simp]: "dict_wf []"
  by (simp add: dict_wf_def)

end
