(* ===== verification/Json.thy ===== *)
theory Json
  imports PyDict Complex_Main
begin

text \<open>
  The Python objects \<open>json.load\<close> produces and the operations the program
  applies to them. \<open>json\<close> has one constructor per Python type that
  \<open>json.load\<close> returns: \<open>None\<close>, \<open>bool\<close>, \<open>int\<close> (a JSON number without
  fraction or exponent), \<open>float\<close> (any other number, modelled by its exact
  rational value), \<open>str\<close>, \<open>list\<close> and \<open>dict\<close> (an association list,
  see PyDict). \<open>pyexc\<close> lists the exceptions the program can raise.
  Subscripting, \<open>.get\<close>, item assignment, \<open>del\<close>, iteration and truth testing
  follow CPython: each raises the exception CPython raises on a value of the
  wrong type, named by the type (\<open>py_type\<close>).
\<close>

datatype json =
    JNull
  | JBool bool
  | JInt int
  | JFloat rat
  | JStr string
  | JList "json list"
  | JObj "(string \<times> json) list"

datatype pyexc =
    KeyError string
  | TypeError string
  | AttributeError string
  | DataShapeError json
  | FileNotFoundError string
  | IsADirectoryError string
  | NotADirectoryError string
  | JSONDecodeError string
  | CalledProcessError int "string list"

type_synonym 'a pyres = "pyexc + 'a"

primrec py_type :: "json \<Rightarrow> string" where
  "py_type JNull = ''NoneType''"
| "py_type (JBool b) = ''bool''"
| "py_type (JInt i) = ''int''"
| "py_type (JFloat r) = ''float''"
| "py_type (JStr s) = ''str''"
| "py_type (JList xs) = ''list''"
| "py_type (JObj d) = ''dict''"

text \<open>Python's truth value \<open>bool(x)\<close>, used by \<open>if name:\<close>.\<close>

primrec truthy :: "json \<Rightarrow> bool" where
  "truthy JNull = False"
| "truthy (JBool b) = b"
| "truthy (JInt i) = (i \<noteq> 0)"
| "truthy (JFloat r) = (r \<noteq> 0)"
| "truthy (JStr s) = (s \<noteq> [])"
| "truthy (JList xs) = (xs \<noteq> [])"
| "truthy (JObj d) = (d \<noteq> [])"

text \<open>\<open>x[k]\<close> with a string key \<open>k\<close>.\<close>

fun json_getitem :: "json \<Rightarrow> string \<Rightarrow> json pyres" where
  "json_getitem (JObj d) k = (case dict_get d k of None \<Rightarrow> Inl (KeyError k) | Some v \<Rightarrow> Inr v)"
| "json_getitem x k = Inl (TypeError (py_type x))"

text \<open>\<open>x.get(k)\<close>: only a \<open>dict\<close> has the method; a missing key gives \<open>None\<close>.\<close>

fun json_get :: "json \<Rightarrow> string \<Rightarrow> json pyres" where
  "json_get (JObj d) k = Inr (case dict_get d k of None \<Rightarrow> JNull | Some v \<Rightarrow> v)"
| "json_get x k = Inl (AttributeError (py_type x))"

text \<open>\<open>x[k] = v\<close>, returning the updated object.\<close>

fun json_setitem :: "json \<Rightarrow> string \<Rightarrow> json \<Rightarrow> json pyres" where
  "json_setitem (JObj d) k v = Inr (JObj (dict_setitem d k v))"
| "json_setitem x k v = Inl (TypeError (py_type x))"

text \<open>\<open>del x[k]\<close>.\<close>

fun json_delitem :: "json \<Rightarrow> string \<Rightarrow> json pyres" where
  "json_delitem (JObj d) k =
     (case dict_delitem d k of None \<Rightarrow> Inl (KeyError k) | Some d' \<Rightarrow> Inr (JObj d'))"
| "json_delitem x k = Inl (TypeError (py_type x))"

text \<open>
  \<open>for x in c\<close>: a list yields its elements, a dict its keys, a string its
  characters; anything else is not iterable.
\<close>

fun json_iter :: "json \<Rightarrow> json list pyres" where
  "json_iter (JList xs) = Inr xs"
| "json_iter (JObj d) = Inr (map (JStr \<circ> fst) d)"
| "json_iter (JStr s) = Inr (map (\<lambda>c. JStr [c]) s)"
| "json_iter x = Inl (TypeError (py_type x))"

text \<open>
  \<open>for x in c: body(x)\<close> where the body mutates \<open>x\<close> in place. \<open>json.load\<close>
  builds a tree without sharing, so mutating the element of a list in place is
  replacing it by the body's result. The elements produced by iterating a
  dict or a string are fresh strings, so there the container itself is never
  changed; the body still runs on them and may raise.
\<close>

fun for_each_mut :: "(json \<Rightarrow> json pyres) \<Rightarrow> json \<Rightarrow> json pyres" where
  "for_each_mut f (JList xs) = bindE (mapE f xs) (\<lambda>ys. Inr (JList ys))"
| "for_each_mut f c = bindE (json_iter c) (\<lambda>xs. bindE (mapE f xs) (\<lambda>_. Inr c))"

text \<open>The value stored under a key of a dict, for stating properties.\<close>

fun json_lookup :: "json \<Rightarrow> string \<Rightarrow> json option" where
  "json_lookup (JObj d) k = map_of d k"
| "json_lookup x k = None"

text \<open>Every dict in the value has distinct keys, as after \<open>json.load\<close>.\<close>

fun json_wf :: "json \<Rightarrow> bool" where
  "json_wf (JList xs) = (\<forall>x \<in> set xs. json_wf x)"
| "json_wf (JObj d) = (dict_wf d \<and> (\<forall>kv \<in> set d. json_wf (snd kv)))"
| "json_wf x = True"

lemmas json_ops = json_getitem.simps json_get.simps json_setitem.simps json_delitem.simps
  json_iter.simps for_each_mut.simps

section \<open>Characteristic lemmas of the operations\<close>

lemma json_getitem_Inr_iff:
  "json_getitem x k = Inr v \<longleftrightarrow> (\<exists>d. x = JObj d \<and> map_of d k = Some v)"
  by (cases x) (auto simp: dict_get_def split: option.splits)

lemma json_get_Inr_iff:
  "json_get x k = Inr r \<longleftrightarrow> (\<exists>d. x = JObj d \<and> r = (case map_of d k of None \<Rightarrow> JNull | Some v \<Rightarrow> v))"
  by (cases x) (auto simp: dict_get_def)

lemma json_setitem_Inr_iff:
  "json_setitem x k v = Inr y \<longleftrightarrow> (\<exists>d. x = JObj d \<and> y = JObj (dict_setitem d k v))"
  by (cases x) auto

lemma json_delitem_Inr_iff:
  "json_delitem x k = Inr y \<longleftrightarrow> (\<exists>d d'. x = JObj d \<and> dict_delitem d k = Some d' \<and> y = JObj d')"
proof (cases x)
  case (JObj d)
  then show ?thesis by (cases "dict_delitem d k") auto
qed auto

lemma json_wf_setitem:
  "json_wf x \<Longrightarrow> json_wf v \<Longrightarrow> json_setitem x k v = Inr y \<Longrightarrow> json_wf y"
proof -
  assume x: "json_wf x" and v: "json_wf v" and y: "json_setitem x k v = Inr y"
  then obtain d where d: "x = JObj d" "y = JObj (dict_setitem d k v)"
    by (auto simp: json_setitem_Inr_iff)
  have "set (dict_setitem d k v) \<subseteq> insert (k, v) (set d)"
    by (induction d k v rule: dict_setitem.induct) auto
  with x v d show ?thesis by auto
qed

lemma json_wf_delitem:
  "json_wf x \<Longrightarrow> json_delitem x k = Inr y \<Longrightarrow> json_wf y"
proof -
  assume x: "json_wf x" and y: "json_delitem x k = Inr y"
  then obtain d d' where d: "x = JObj d" "dict_delitem d k = Some d'" "y = JObj d'"
    by (auto simp: json_delitem_Inr_iff)
  have "set d' \<subseteq> set d"
    using d(2) by (rule dict_delitem_subset)
  with x d dict_wf_delitem [OF d(2)] show ?thesis by auto
qed

lemma for_each_mut_JList:
  "for_each_mut f c = Inr c' \<Longrightarrow> c = JList xs \<Longrightarrow> \<exists>ys. mapE f xs = Inr ys \<and> c' = JList ys"
  by auto

lemma for_each_mut_not_list:
  "for_each_mut f c = Inr c' \<Longrightarrow> (\<And>xs. c \<noteq> JList xs) \<Longrightarrow> c' = c"
  by (cases c) auto

end
