(* ===== verification/Rounding.thy ===== *)
theory Rounding
  imports Prelude Complex_Main
begin

text \<open>
  Python's \<open>round(x, n)\<close> on a float, as \<open>trim_precision\<close> calls it with
  \<open>n = 6\<close>: the value nearest to \<open>x\<close> with \<open>n\<close> decimals, ties to the even last
  digit. CPython decides the rounding from the exact binary value of the float
  and returns the double nearest to the decimal \<open>k / 10 ^ n\<close>; \<open>json.dumps\<close>
  then writes that double as its shortest representation, which is the
  decimal \<open>k / 10 ^ n\<close> itself. The model takes the exact value of the float as
  a rational and returns \<open>k / 10 ^ n\<close>, the value written to the file. A
  rational input that is not the exact value of a double (a decimal literal
  such as \<open>2.5e-06\<close>) can round differently from CPython at a decimal tie,
  because CPython rounds the nearest double, not the decimal.
  \<open>round_half_even\<close> rounds to an integer; \<open>py_round\<close> scales by \<open>10 ^ n\<close>.
  The lemmas show that \<open>round_half_even\<close> meets the abstract contract
  \<open>is_round_half_even\<close> (nearest integer, even on a tie) and is the only integer
  that does, and derive idempotence and the error bound.
\<close>

definition round_half_even :: "rat \<Rightarrow> int" where
  "round_half_even x =
     (let f = \<lfloor>x\<rfloor>; d = x - of_int f
      in if d < 1/2 then f else if 1/2 < d then f + 1 else if even f then f else f + 1)"

definition py_round :: "rat \<Rightarrow> nat \<Rightarrow> rat" where
  "py_round x n = of_int (round_half_even (x * 10 ^ n)) / 10 ^ n"

text \<open>The contract: an integer nearest to \<open>x\<close>, and even when \<open>x\<close> lies halfway.\<close>

definition is_round_half_even :: "rat \<Rightarrow> int \<Rightarrow> bool" where
  "is_round_half_even x n \<longleftrightarrow> \<bar>x - of_int n\<bar> \<le> 1/2 \<and> (\<bar>x - of_int n\<bar> = 1/2 \<longrightarrow> even n)"

section \<open>The integer rounding meets its contract\<close>

lemma round_half_even_meets_contract: "is_round_half_even x (round_half_even x)"
proof -
  let ?f = "\<lfloor>x\<rfloor>"
  have lo: "of_int ?f \<le> x" and hi: "x < of_int ?f + 1"
    using floor_correct [of x] by simp_all
  show ?thesis
  proof (cases "x - of_int ?f < 1/2")
    case True
    with lo show ?thesis by (simp add: is_round_half_even_def round_half_even_def Let_def)
  next
    case False
    show ?thesis
    proof (cases "1/2 < x - of_int ?f")
      case True
      with hi False show ?thesis by (simp add: is_round_half_even_def round_half_even_def Let_def)
    next
      case False2: False
      with \<open>\<not> x - of_int ?f < 1/2\<close> have eq: "x - of_int ?f = 1/2" by simp
      then show ?thesis
        by (simp add: is_round_half_even_def round_half_even_def Let_def)
    qed
  qed
qed

lemma is_round_half_even_unique:
  assumes "is_round_half_even x m" and "is_round_half_even x n"
  shows "m = n"
proof (rule ccontr)
  assume ne: "m \<noteq> n"
  from assms have m: "\<bar>x - of_int m\<bar> \<le> 1/2" and n: "\<bar>x - of_int n\<bar> \<le> 1/2"
    by (simp_all add: is_round_half_even_def)
  have "\<bar>of_int (m - n) :: rat\<bar> \<le> 1"
    using m n unfolding of_int_diff by linarith
  then have le: "\<bar>m - n\<bar> \<le> 1"
    by (simp only: of_int_abs [symmetric] of_int_le_1_iff)
  from ne le have mn: "m = n + 1 \<or> n = m + 1" by linarith
  then have "\<bar>x - of_int m\<bar> = 1/2 \<and> \<bar>x - of_int n\<bar> = 1/2"
    using m n by (auto simp: abs_if split: if_split_asm)
  with assms have "even m" and "even n"
    by (simp_all add: is_round_half_even_def)
  with mn show False by auto
qed

lemma round_half_even_eqI: "is_round_half_even x n \<Longrightarrow> round_half_even x = n"
  using round_half_even_meets_contract is_round_half_even_unique by blast

lemma round_half_even_of_int [simp]: "round_half_even (of_int k) = k"
  by (rule round_half_even_eqI) (simp add: is_round_half_even_def)

lemma round_half_even_nearest: "\<bar>x - of_int (round_half_even x)\<bar> \<le> 1/2"
  using round_half_even_meets_contract by (simp add: is_round_half_even_def)

section \<open>Rounding to decimals\<close>

lemma py_round_scaled: "py_round x n * 10 ^ n = of_int (round_half_even (x * 10 ^ n))"
  by (simp add: py_round_def)

lemma py_round_idem: "py_round (py_round x n) n = py_round x n"
  by (simp add: py_round_def)

lemma py_round_error: "\<bar>py_round x n - x\<bar> \<le> 1 / (2 * 10 ^ n)"
proof -
  have p: "(0::rat) < 10 ^ n" by simp
  have "\<bar>x * 10 ^ n - of_int (round_half_even (x * 10 ^ n))\<bar> \<le> 1/2"
    by (rule round_half_even_nearest)
  moreover have "x * 10 ^ n - of_int (round_half_even (x * 10 ^ n)) = - ((py_round x n - x) * 10 ^ n)"
    by (simp add: py_round_def algebra_simps)
  ultimately have "\<bar>py_round x n - x\<bar> * 10 ^ n \<le> 1/2"
    by (simp add: abs_mult)
  with p show ?thesis
    by (simp add: field_simps)
qed

section \<open>Properties of Python's round\<close>

text \<open>
  C14. \<open>round_half_even\<close> implements its contract exactly: it returns \<open>n\<close> if and
  only if \<open>n\<close> is an integer nearest to \<open>x\<close> that is even whenever \<open>x\<close> lies
  halfway between two integers.
\<close>

theorem round_half_even_iff:
  "round_half_even x = n \<longleftrightarrow> is_round_half_even x n"
  using round_half_even_meets_contract is_round_half_even_unique by blast


end
