(* ===== verification/TrimPrecision.thy ===== *)
theory TrimPrecision
  imports Json Rounding
begin

text \<open>
  \<^verbatim>\<open>trim_precision\<close> (lines 211--217): the depth-agnostic walker that rounds
  every coordinate of a GeoJSON geometry to 6 decimals. It dispatches on the
  runtime type of the value: a list is walked element by element (the list
  comprehension stops at the first element that raises), a float is rounded
  with \<open>round(data, 6)\<close>, and anything else raises. In the source the
  exception is a bare \<open>Exception\<close> carrying the value; the model names it
  \<open>DataShapeError\<close>, the spec's name, and keeps the value.

  The walker is \<open>trim_precision\<close> with its list helper \<open>trim_list\<close>, mutually
  recursive, and \<open>trim_list\<close> is \<open>mapE trim_precision\<close>. The lemmas show: it
  succeeds exactly on values whose leaves are all floats (\<open>coords_ok\<close>); it
  keeps the nesting (\<open>json_shape\<close>); it is idempotent; every output leaf
  lies within half a unit of the sixth decimal of its input leaf; and it refines the typed coordinate tree \<open>coord\<close> of the spec's design
  note (\<open>coord_of\<close>, \<open>coord_map\<close>).
\<close>

fun trim_precision :: "json \<Rightarrow> json pyres"
  and trim_list :: "json list \<Rightarrow> json list pyres" where
  "trim_precision (JList xs) = bindE (trim_list xs) (\<lambda>ys. Inr (JList ys))"
| "trim_precision (JFloat r) = Inr (JFloat (py_round r 6))"
| "trim_precision x = Inl (DataShapeError x)"
| "trim_list [] = Inr []"
| "trim_list (x # xs) = bindE (trim_precision x) (\<lambda>y. bindE (trim_list xs) (\<lambda>ys. Inr (y # ys)))"

section \<open>Views of a coordinate structure\<close>

datatype shape = Leaf | Node "shape list"

fun json_shape :: "json \<Rightarrow> shape" where
  "json_shape (JList xs) = Node (map json_shape xs)"
| "json_shape x = Leaf"

fun coords_ok :: "json \<Rightarrow> bool" where
  "coords_ok (JList xs) = (\<forall>x \<in> set xs. coords_ok x)"
| "coords_ok (JFloat r) = True"
| "coords_ok x = False"

fun float_leaves :: "json \<Rightarrow> rat list" where
  "float_leaves (JList xs) = concat (map float_leaves xs)"
| "float_leaves (JFloat r) = [r]"
| "float_leaves x = []"

text \<open>The leaves that are neither lists nor floats, left to right.\<close>

fun bad_leaves :: "json \<Rightarrow> json list" where
  "bad_leaves (JList xs) = concat (map bad_leaves xs)"
| "bad_leaves (JFloat r) = []"
| "bad_leaves x = [x]"

text \<open>The typed coordinate tree of the spec's design note, and the walk over it.\<close>

datatype coord = Point rat | Nest "coord list"

fun coord_of :: "json \<Rightarrow> coord option" where
  "coord_of (JList xs) =
     (let cs = map coord_of xs in
      if None \<in> set cs then None else Some (Nest (map the cs)))"
| "coord_of (JFloat r) = Some (Point r)"
| "coord_of x = None"

fun json_of_coord :: "coord \<Rightarrow> json" where
  "json_of_coord (Point r) = JFloat r"
| "json_of_coord (Nest cs) = JList (map json_of_coord cs)"

fun coord_map :: "(rat \<Rightarrow> rat) \<Rightarrow> coord \<Rightarrow> coord" where
  "coord_map f (Point r) = Point (f r)"
| "coord_map f (Nest cs) = Nest (map (coord_map f) cs)"

section \<open>Basic facts\<close>

lemma trim_list_mapE [simp]: "trim_list xs = mapE trim_precision xs"
  by (induction xs) simp_all

lemma trim_precision_JList:
  "trim_precision (JList xs) = bindE (mapE trim_precision xs) (\<lambda>ys. Inr (JList ys))"
  by (simp add: trim_list_mapE)

lemma trim_precision_Inr_JList:
  "trim_precision (JList xs) = Inr j' \<longleftrightarrow> (\<exists>ys. mapE trim_precision xs = Inr ys \<and> j' = JList ys)"
  by (auto simp: trim_precision_JList)

lemma trim_precision_Inr_cases:
  assumes "trim_precision j = Inr j'"
  obtains (List) xs ys where "j = JList xs" "mapE trim_precision xs = Inr ys" "j' = JList ys"
    | (Float) r where "j = JFloat r" "j' = JFloat (py_round r 6)"
  using assms by (cases j) (auto simp: trim_precision_JList)

lemma coords_ok_bad_leaves: "coords_ok j \<longleftrightarrow> bad_leaves j = []"
  by (induction j) auto

lemma coord_of_None_iff: "coord_of j = None \<longleftrightarrow> \<not> coords_ok j"
proof (induction j)
  case (JList xs)
  then show ?case by (auto simp: Let_def image_iff eq_commute [of None])
qed simp_all

section \<open>Properties of the walker\<close>

text \<open>
  C9. Shape preservation: when \<open>trim_precision\<close> returns, its result has the
  same list nesting and the same number of elements at every level as its input.
\<close>

theorem trim_precision_shape:
  "trim_precision j = Inr j' \<Longrightarrow> json_shape j' = json_shape j"
proof (induction j arbitrary: j')
  case (JList xs)
  then obtain ys where ys: "mapE trim_precision xs = Inr ys" and j': "j' = JList ys"
    by (auto simp: trim_precision_Inr_JList)
  have "map json_shape ys = map json_shape xs"
    using ys JList.IH by (rule mapE_map_eq)
  with j' show ?case by simp
qed auto

text \<open>
  C10. Idempotence: normalising an already normalised coordinate structure
  returns it unchanged.
\<close>

theorem trim_precision_idem:
  "trim_precision j = Inr j' \<Longrightarrow> trim_precision j' = Inr j'"
proof (induction j arbitrary: j')
  case (JList xs)
  then obtain ys where ys: "mapE trim_precision xs = Inr ys" and j': "j' = JList ys"
    by (auto simp: trim_precision_Inr_JList)
  have "mapE trim_precision ys = Inr ys"
    using ys JList.IH by (rule mapE_cong_Inr)
  with j' show ?case by simp
qed (auto simp: py_round_idem)

lemma trim_precision_Inr_coords_ok: "trim_precision j = Inr j' \<Longrightarrow> coords_ok j"
proof (induction j arbitrary: j')
  case (JList xs)
  then obtain ys where ys: "mapE trim_precision xs = Inr ys" and "j' = JList ys"
    by (auto simp: trim_precision_Inr_JList)
  have "coords_ok x" if x: "x \<in> set xs" for x
  proof -
    from ys have "\<exists>ys. mapE trim_precision xs = Inr ys" by (rule exI)
    then have "\<forall>x \<in> set xs. \<exists>y. trim_precision x = Inr y" by (simp only: mapE_Inr_ex)
    with x obtain y where "trim_precision x = Inr y" by blast
    with JList.IH [OF x] show ?thesis by blast
  qed
  then show ?case by simp
qed simp_all

text \<open>
  C11. \<open>trim_precision\<close> returns a value exactly when every leaf of the structure is
  a float; on any other input it raises. In particular a coordinate that
  \<open>json.load\<close> returns as an \<open>int\<close> (a JSON number written without a fraction,
  such as \<open>0\<close>), at any depth, makes it raise, although the spec calls every
  numeric scalar valid.
\<close>

theorem trim_precision_succeeds_iff:
  "(\<exists>j'. trim_precision j = Inr j') \<longleftrightarrow> coords_ok j"
proof (induction j)
  case (JList xs)
  have "(\<exists>j'. trim_precision (JList xs) = Inr j') \<longleftrightarrow> (\<exists>ys. mapE trim_precision xs = Inr ys)"
    by (auto simp: trim_precision_Inr_JList)
  also have "\<dots> \<longleftrightarrow> (\<forall>x \<in> set xs. coords_ok x)"
    using JList.IH by (simp add: mapE_Inr_ex)
  finally show ?case by simp
qed simp_all

lemma trim_precision_error:
  "trim_precision j = Inl e \<Longrightarrow> bad_leaves j \<noteq> [] \<and> e = DataShapeError (hd (bad_leaves j))"
proof (induction j arbitrary: e)
  case (JList xs)
  then have "mapE trim_precision xs = Inl e"
    by (auto simp: trim_precision_JList bindE_def split: sum.splits)
  then obtain pre x post where xs: "xs = pre @ x # post"
    and pre: "\<forall>p \<in> set pre. \<exists>y. trim_precision p = Inr y" and x: "trim_precision x = Inl e"
    by (blast dest: mapE_Inl_split)
  have "\<forall>p \<in> set pre. bad_leaves p = []"
    using pre trim_precision_Inr_coords_ok by (auto simp: coords_ok_bad_leaves)
  then have c: "concat (map bad_leaves pre) = []" by simp
  from xs have "bad_leaves (JList xs) =
      concat (map bad_leaves pre) @ bad_leaves x @ concat (map bad_leaves post)"
    by simp
  also have "\<dots> = bad_leaves x @ concat (map bad_leaves post)"
    unfolding c by simp
  finally have bl: "bad_leaves (JList xs) = bad_leaves x @ concat (map bad_leaves post)" .
  from JList.IH [of x e] xs x
  have "bad_leaves x \<noteq> [] \<and> e = DataShapeError (hd (bad_leaves x))" by simp
  with bl show ?case by simp
qed auto

lemma trim_precision_leaves:
  "trim_precision j = Inr j' \<Longrightarrow> float_leaves j' = map (\<lambda>r. py_round r 6) (float_leaves j)"
proof (induction j arbitrary: j')
  case (JList xs)
  then obtain ys where ys: "mapE trim_precision xs = Inr ys" and j': "j' = JList ys"
    by (auto simp: trim_precision_Inr_JList)
  have "map float_leaves ys = map (\<lambda>x. map (\<lambda>r. py_round r 6) (float_leaves x)) xs"
    using ys JList.IH by (rule mapE_map_eq)
  with j' show ?case by (simp add: map_concat comp_def)
qed auto

lemma trim_precision_coord:
  "coord_of j = Some c \<Longrightarrow> trim_precision j = Inr (json_of_coord (coord_map (\<lambda>r. py_round r 6) c))"
proof (induction j arbitrary: c)
  case (JList xs)
  then have none: "None \<notin> coord_of ` set xs"
    and c: "c = Nest (map (the \<circ> coord_of) xs)"
    by (auto simp: Let_def split: if_splits)
  have "trim_precision x = Inr (json_of_coord (coord_map (\<lambda>r. py_round r 6) (the (coord_of x))))"
    if x: "x \<in> set xs" for x
  proof -
    from x none have "coord_of x \<noteq> None" by (metis image_eqI)
    then obtain c' where c': "coord_of x = Some c'" by blast
    with JList.IH [OF x c'] show ?thesis by simp
  qed
  then have "mapE trim_precision xs =
        Inr (map (\<lambda>x. json_of_coord (coord_map (\<lambda>r. py_round r 6) (the (coord_of x)))) xs)"
    by (rule mapE_all_Inr)
  with c show ?case by (simp add: trim_precision_JList)
qed auto

section \<open>The walker refines the typed coordinate tree\<close>

text \<open>
  C12. Functional refinement: on a value that is a typed coordinate tree,
  \<open>trim_precision\<close> is the map of \<open>round(_, 6)\<close> over its points; on any other
  value it raises the data-shape error carrying the first leaf, in document
  order, that is neither a list nor a float.
\<close>

theorem trim_precision_refines_coord:
  "trim_precision j =
     (case coord_of j of
        Some c \<Rightarrow> Inr (json_of_coord (coord_map (\<lambda>r. py_round r 6) c))
      | None \<Rightarrow> Inl (DataShapeError (hd (bad_leaves j))))"
proof (cases "coord_of j")
  case None
  then have "\<not> coords_ok j" by (simp add: coord_of_None_iff)
  then obtain e where e: "trim_precision j = Inl e"
    using trim_precision_Inr_coords_ok by (cases "trim_precision j") auto
  with trim_precision_error [OF e] None show ?thesis by simp
next
  case (Some c)
  then show ?thesis by (simp add: trim_precision_coord)
qed

lemma list_all2_py_round:
  "list_all2 (\<lambda>a b. \<bar>b - a\<bar> \<le> 1 / (2 * 10 ^ n)) xs (map (\<lambda>r. py_round r n) xs)"
proof (induction xs)
  case (Cons a xs)
  have "\<bar>py_round a n - a\<bar> \<le> 1 / (2 * 10 ^ n)" by (rule py_round_error)
  with Cons.IH show ?case by (simp only: list.map list_all2_Cons)
qed simp

text \<open>
  C13. Normalisation moves each coordinate, leaf by leaf in document order, by
  at most half a unit of the sixth decimal.
\<close>

theorem trim_precision_error_bound:
  "trim_precision j = Inr j' \<Longrightarrow>
   list_all2 (\<lambda>a b. \<bar>b - a\<bar> \<le> 1 / (2 * 10 ^ 6)) (float_leaves j) (float_leaves j')"
  unfolding trim_precision_leaves by (rule list_all2_py_round)


end
