(* ===== verification/Reducer.thy ===== *)
theory Reducer
  imports TrimPrecision
begin

text \<open>
  The feature reducer of \<^verbatim>\<open>src/layers/generate_layers.py\<close> on the loaded
  GeoJSON value, before and after the file round trip that Pipeline models.
  \<open>reduce_feature src dst\<close> is the loop body shared by
  \<^verbatim>\<open>remove_extra_properties\<close> (lines 199--203, \<open>src = dst = name\<close>) and by the
  cleanup in \<^verbatim>\<open>makeMRN\<close> (lines 122--126, \<open>src = name1\<close>, \<open>dst = name\<close>): it
  replaces the feature's property dict by a fresh dict that holds \<open>dst\<close> only
  when \<open>src\<close> is present with a truthy value. \<open>update_features\<close> is the
  \<open>for feature in gj["features"]\<close> loop that mutates every feature in place.
  \<open>remove_extra_properties_json\<close> is the body of \<^verbatim>\<open>remove_extra_properties\<close>
  between \<open>json.load\<close> and \<open>json.dumps\<close>; \<open>mrn_clean_json\<close> the body of the
  cleanup in \<^verbatim>\<open>makeMRN\<close> (lines 118--130): delete the collection's \<open>name\<close> and
  \<open>crs\<close>, then per feature reduce the properties and trim the coordinates
  (\<open>mrn_feature\<close>).

  \<open>kept_props\<close> is the spec's property policy written as a function of the
  source property dict; the lemmas show the reducer implements it, that the
  collection keeps every feature and every other key, that the schools and
  hospitals reduction is idempotent and the MRN cleanup is not, and where the
  code raises on inputs the spec allows.
\<close>

section \<open>The operations\<close>

definition reduce_feature :: "string \<Rightarrow> string \<Rightarrow> json \<Rightarrow> json pyres" where
  "reduce_feature src dst feature =
     bindE (json_getitem feature ''properties'') (\<lambda>p.
     bindE (json_get p src) (\<lambda>name.
     json_setitem feature ''properties''
       (JObj (if truthy name then dict_setitem [] dst name else []))))"

definition update_features :: "(json \<Rightarrow> json pyres) \<Rightarrow> json \<Rightarrow> json pyres" where
  "update_features f gj =
     bindE (json_getitem gj ''features'') (\<lambda>fs.
     bindE (for_each_mut f fs) (\<lambda>fs'.
     json_setitem gj ''features'' fs'))"

definition remove_extra_properties_json :: "json \<Rightarrow> json pyres" where
  "remove_extra_properties_json gj = update_features (reduce_feature ''name'' ''name'') gj"

definition mrn_feature :: "json \<Rightarrow> json pyres" where
  "mrn_feature feature =
     bindE (reduce_feature ''name1'' ''name'' feature) (\<lambda>f1.
     bindE (json_getitem f1 ''geometry'') (\<lambda>g.
     bindE (json_getitem g ''coordinates'') (\<lambda>c.
     bindE (trim_precision c) (\<lambda>c'.
     bindE (json_setitem g ''coordinates'' c') (\<lambda>g'.
     json_setitem f1 ''geometry'' g')))))"

definition mrn_clean_json :: "json \<Rightarrow> json pyres" where
  "mrn_clean_json gj =
     bindE (json_delitem gj ''name'') (\<lambda>g1.
     bindE (json_delitem g1 ''crs'') (\<lambda>g2.
     update_features mrn_feature g2))"

section \<open>The policy and views for stating properties\<close>

text \<open>The property policy "keep \<open>src\<close>, expose it as \<open>dst\<close>, drop the rest".\<close>

definition kept_props :: "string \<Rightarrow> string \<Rightarrow> (string \<times> json) list \<Rightarrow> (string \<times> json) list" where
  "kept_props src dst p =
     (case map_of p src of Some v \<Rightarrow> if truthy v then [(dst, v)] else [] | None \<Rightarrow> [])"

definition features_of :: "json \<Rightarrow> json list" where
  "features_of gj = (case json_lookup gj ''features'' of Some (JList xs) \<Rightarrow> xs | _ \<Rightarrow> [])"

definition feature_reduced :: "string \<Rightarrow> json \<Rightarrow> bool" where
  "feature_reduced dst f =
     (case json_lookup f ''properties'' of Some (JObj p) \<Rightarrow> set (map fst p) \<subseteq> {dst} | _ \<Rightarrow> False)"

section \<open>One feature\<close>

lemma reduce_feature_JObj:
  "reduce_feature src dst (JObj d) =
     (case map_of d ''properties'' of
        None \<Rightarrow> Inl (KeyError ''properties'')
      | Some (JObj p) \<Rightarrow> Inr (JObj (dict_setitem d ''properties'' (JObj (kept_props src dst p))))
      | Some x \<Rightarrow> Inl (AttributeError (py_type x)))"
  by (auto simp: reduce_feature_def kept_props_def dict_get_def
      split: option.splits json.splits)

lemma reduce_feature_not_obj:
  "(\<And>d. f \<noteq> JObj d) \<Longrightarrow> reduce_feature src dst f = Inl (TypeError (py_type f))"
  by (cases f) (auto simp: reduce_feature_def)

lemma reduce_feature_Inr:
  "reduce_feature src dst f = Inr f' \<Longrightarrow>
   \<exists>d p. f = JObj d \<and> map_of d ''properties'' = Some (JObj p) \<and>
         f' = JObj (dict_setitem d ''properties'' (JObj (kept_props src dst p)))"
  by (cases f) (auto simp: reduce_feature_JObj reduce_feature_not_obj split: option.splits json.splits)

lemma kept_props_keys: "(a, b) \<in> set (kept_props src dst p) \<Longrightarrow> a = dst"
  by (auto simp: kept_props_def split: option.splits if_splits)

lemma kept_props_idem: "kept_props dst dst (kept_props src dst p) = kept_props src dst p"
  by (simp add: kept_props_def split: option.splits)

lemma reduce_feature_reduced:
  "reduce_feature src dst f = Inr f' \<Longrightarrow> feature_reduced dst f'"
proof -
  assume "reduce_feature src dst f = Inr f'"
  then obtain d p where "f' = JObj (dict_setitem d ''properties'' (JObj (kept_props src dst p)))"
    by (blast dest: reduce_feature_Inr)
  then show ?thesis
    by (auto simp: feature_reduced_def intro: kept_props_keys)
qed

lemma reduce_feature_same_idem:
  "reduce_feature src dst f = Inr f' \<Longrightarrow> reduce_feature dst dst f' = Inr f'"
  by (auto simp: reduce_feature_JObj kept_props_idem dest!: reduce_feature_Inr)

lemma reduce_feature_other_keys:
  "reduce_feature src dst f = Inr f' \<Longrightarrow> k \<noteq> ''properties'' \<Longrightarrow>
   json_lookup f' k = json_lookup f k"
  by (auto dest!: reduce_feature_Inr)

section \<open>The loop over the features\<close>

lemma update_features_Inr:
  assumes "update_features f gj = Inr gj'"
  obtains (List) d xs ys where "gj = JObj d" "map_of d ''features'' = Some (JList xs)"
      "mapE f xs = Inr ys" "gj' = JObj (dict_setitem d ''features'' (JList ys))"
    | (Other) d fs where "gj = JObj d" "map_of d ''features'' = Some fs"
      "\<forall>xs. fs \<noteq> JList xs" "gj' = gj"
proof -
  from assms obtain fs fs' where fs: "json_getitem gj ''features'' = Inr fs"
    and fs': "for_each_mut f fs = Inr fs'" and gj': "json_setitem gj ''features'' fs' = Inr gj'"
    by (auto simp: update_features_def)
  from fs obtain d where d: "gj = JObj d" "map_of d ''features'' = Some fs"
    by (auto simp: json_getitem_Inr_iff)
  show ?thesis
  proof (cases "\<exists>xs. fs = JList xs")
    case True
    then obtain xs where "fs = JList xs" by blast
    with d fs' gj' show ?thesis by (auto intro: List)
  next
    case False
    then have "fs' = fs" using fs' by (metis for_each_mut_not_list)
    with d gj' False have "gj' = gj" by (auto simp: dict_setitem_lookup_id)
    with d False show ?thesis by (auto intro: Other)
  qed
qed

lemma update_features_features:
  assumes "update_features f gj = Inr gj'"
  shows "list_all2 (\<lambda>x y. f x = Inr y) (features_of gj) (features_of gj')"
  using assms
proof (cases rule: update_features_Inr)
  case (Other d fs)
  then show ?thesis by (cases fs) (auto simp: features_of_def)
qed (auto simp: features_of_def mapE_Inr_iff)

lemma update_features_other_keys:
  assumes "update_features f gj = Inr gj'" and "k \<noteq> ''features''"
  shows "json_lookup gj' k = json_lookup gj k"
  using assms(1) by (cases rule: update_features_Inr) (use assms(2) in auto)

lemma update_features_obj:
  assumes "update_features f gj = Inr gj'"
  shows "\<exists>d'. gj' = JObj d'"
  using assms by (cases rule: update_features_Inr) auto

lemma update_features_idem:
  assumes f: "\<And>x y. f x = Inr y \<Longrightarrow> f y = Inr y"
    and u: "update_features f gj = Inr gj'"
  shows "update_features f gj' = Inr gj'"
  using u
proof (cases rule: update_features_Inr)
  case (List d xs ys)
  have "mapE f ys = Inr ys"
    using List(3) f by (rule mapE_cong_Inr)
  with List(4) show ?thesis by (simp add: update_features_def dict_get_def)
next
  case (Other d fs)
  with u show ?thesis by simp
qed

lemma update_features_first_Inl:
  "json_lookup gj ''features'' = Some (JList (pre @ x # post)) \<Longrightarrow>
   \<forall>p \<in> set pre. \<exists>y. f p = Inr y \<Longrightarrow> f x = Inl e \<Longrightarrow> update_features f gj = Inl e"
  by (cases gj) (simp_all add: update_features_def dict_get_def mapE_first_Inl)

lemma mrn_feature_Inr:
  "mrn_feature f = Inr f' \<Longrightarrow>
   \<exists>d p g c c' g'. f = JObj d \<and> map_of d ''properties'' = Some (JObj p) \<and>
     map_of d ''geometry'' = Some g \<and> json_lookup g ''coordinates'' = Some c \<and>
     trim_precision c = Inr c' \<and>
     json_lookup f' ''properties'' = Some (JObj (kept_props ''name1'' ''name'' p)) \<and>
     json_lookup f' ''geometry'' = Some g' \<and> json_lookup g' ''coordinates'' = Some c'"
  by (auto simp: mrn_feature_def json_getitem_Inr_iff json_setitem_Inr_iff dest!: reduce_feature_Inr)

lemma json_delitem_wf_Inr:
  assumes "json_delitem gj k = Inr g" and "json_wf gj"
  shows "json_wf g \<and> (\<exists>d. g = JObj d) \<and> json_lookup g k = None \<and>
         (\<forall>k'. k' \<noteq> k \<longrightarrow> json_lookup g k' = json_lookup gj k')"
proof -
  from assms(1) obtain d d' where d: "gj = JObj d" "dict_delitem d k = Some d'" "g = JObj d'"
    by (auto simp: json_delitem_Inr_iff)
  from assms(2) d(1) have "dict_wf d" by simp
  with d(2) have "map_of d' = (map_of d)(k := None)" by (rule dict_delitem_map_of)
  moreover have "json_wf g" using assms(2,1) by (rule json_wf_delitem)
  ultimately show ?thesis using d by auto
qed

lemma mrn_clean_Inr:
  assumes wf: "json_wf gj" and r: "mrn_clean_json gj = Inr gj'"
  shows "json_lookup gj' ''name'' = None \<and> json_lookup gj' ''crs'' = None \<and> (\<exists>d'. gj' = JObj d') \<and>
         list_all2 (\<lambda>x y. mrn_feature x = Inr y) (features_of gj) (features_of gj')"
proof -
  from r obtain g1 g2 where g1: "json_delitem gj ''name'' = Inr g1"
    and g2: "json_delitem g1 ''crs'' = Inr g2" and u: "update_features mrn_feature g2 = Inr gj'"
    by (auto simp: mrn_clean_json_def)
  from json_delitem_wf_Inr [OF g1 wf]
  have w1: "json_wf g1" and n1: "json_lookup g1 ''name'' = None"
    and o1: "\<forall>k'. k' \<noteq> ''name'' \<longrightarrow> json_lookup g1 k' = json_lookup gj k'" by auto
  from json_delitem_wf_Inr [OF g2 w1]
  have c2: "json_lookup g2 ''crs'' = None"
    and o2: "\<forall>k'. k' \<noteq> ''crs'' \<longrightarrow> json_lookup g2 k' = json_lookup g1 k'" by auto
  have "features_of g2 = features_of gj"
    using o1 o2 by (simp add: features_of_def)
  with u n1 o2 c2 show ?thesis
    using update_features_other_keys [OF u] update_features_obj [OF u] update_features_features [OF u]
    by auto
qed

section \<open>The reducer implements the property policy\<close>

text \<open>
  C1. One feature: the reducer replaces the feature's properties by the policy's
  dict \<open>kept_props src dst\<close> (only \<open>dst\<close>, and only when \<open>src\<close> is present with a
  truthy value), in place, keeping the key's position; it raises \<open>KeyError\<close>
  when the feature has no \<open>properties\<close>, \<open>AttributeError\<close> when they are not a
  dict, and \<open>TypeError\<close> when the feature is not a dict.
\<close>

theorem reduce_feature_spec:
  "reduce_feature src dst f =
     (case f of
        JObj d \<Rightarrow>
          (case map_of d ''properties'' of
             None \<Rightarrow> Inl (KeyError ''properties'')
           | Some (JObj p) \<Rightarrow> Inr (JObj (dict_setitem d ''properties'' (JObj (kept_props src dst p))))
           | Some x \<Rightarrow> Inl (AttributeError (py_type x)))
      | _ \<Rightarrow> Inl (TypeError (py_type f)))"
  by (cases f) (simp_all add: reduce_feature_JObj reduce_feature_not_obj)

text \<open>
  C2. Schools and hospitals: when \<open>remove_extra_properties\<close> succeeds, every
  output feature is its input feature with the properties replaced by the
  policy's dict for \<open>name \<rightarrow> name\<close>, so its property keys are at most
  \<open>name\<close>, present exactly when the input had a truthy \<open>name\<close>.
\<close>

theorem remove_extra_properties_policy:
  assumes "remove_extra_properties_json gj = Inr gj'"
  shows "list_all2 (\<lambda>f f'. \<exists>d p. f = JObj d \<and> map_of d ''properties'' = Some (JObj p) \<and>
            f' = JObj (dict_setitem d ''properties'' (JObj (kept_props ''name'' ''name'' p))))
           (features_of gj) (features_of gj') \<and>
         (\<forall>f' \<in> set (features_of gj'). feature_reduced ''name'' f')"
proof -
  have fs: "list_all2 (\<lambda>x y. reduce_feature ''name'' ''name'' x = Inr y) (features_of gj) (features_of gj')"
    using assms by (simp add: remove_extra_properties_json_def update_features_features)
  then have "list_all2 (\<lambda>f f'. \<exists>d p. f = JObj d \<and> map_of d ''properties'' = Some (JObj p) \<and>
      f' = JObj (dict_setitem d ''properties'' (JObj (kept_props ''name'' ''name'' p))))
      (features_of gj) (features_of gj')"
    by (rule list_all2_mono) (rule reduce_feature_Inr)
  moreover have "\<forall>f' \<in> set (features_of gj'). feature_reduced ''name'' f'"
    using fs by (auto dest: list_all2_in_set2 reduce_feature_reduced)
  ultimately show ?thesis ..
qed

text \<open>
  C3. Idempotence (schools and hospitals): reducing an already reduced
  collection returns it unchanged.
\<close>

theorem remove_extra_properties_idem:
  "remove_extra_properties_json gj = Inr gj' \<Longrightarrow> remove_extra_properties_json gj' = Inr gj'"
  unfolding remove_extra_properties_json_def
  by (rule update_features_idem) (erule reduce_feature_same_idem)

text \<open>
  C4. No feature is dropped, and nothing but the properties changes: the
  output has as many features as the input, each with the same value under
  every other key (its geometry in particular), and every collection-level key
  other than \<open>features\<close> (such as \<open>crs\<close> and \<open>name\<close>) is left as produced.
\<close>

theorem remove_extra_properties_keeps:
  assumes "remove_extra_properties_json gj = Inr gj'"
  shows "length (features_of gj') = length (features_of gj) \<and>
         list_all2 (\<lambda>f f'. \<forall>k. k \<noteq> ''properties'' \<longrightarrow> json_lookup f' k = json_lookup f k)
           (features_of gj) (features_of gj') \<and>
         (\<forall>k. k \<noteq> ''features'' \<longrightarrow> json_lookup gj' k = json_lookup gj k)"
proof -
  have u: "update_features (reduce_feature ''name'' ''name'') gj = Inr gj'"
    using assms by (simp add: remove_extra_properties_json_def)
  have fs: "list_all2 (\<lambda>x y. reduce_feature ''name'' ''name'' x = Inr y) (features_of gj) (features_of gj')"
    using u by (rule update_features_features)
  then have "length (features_of gj') = length (features_of gj)"
    by (simp add: list_all2_lengthD)
  moreover have "list_all2 (\<lambda>f f'. \<forall>k. k \<noteq> ''properties'' \<longrightarrow> json_lookup f' k = json_lookup f k)
      (features_of gj) (features_of gj')"
    using fs by (rule list_all2_mono) (auto intro: reduce_feature_other_keys)
  moreover have "\<forall>k. k \<noteq> ''features'' \<longrightarrow> json_lookup gj' k = json_lookup gj k"
    using u by (auto intro: update_features_other_keys)
  ultimately show ?thesis by blast
qed

section \<open>The MRN cleanup\<close>

text \<open>
  C5. The MRN cleanup, on a collection as \<open>json.load\<close> returns it: when it
  succeeds, the collection has no \<open>name\<close> and no \<open>crs\<close> attribute, and every
  output feature has the policy's properties for \<open>name1 \<rightarrow> name\<close> and the
  coordinates \<open>trim_precision\<close> made of its input coordinates.
\<close>

theorem mrn_clean_result:
  assumes "json_wf gj" and "mrn_clean_json gj = Inr gj'"
  shows "json_lookup gj' ''name'' = None \<and> json_lookup gj' ''crs'' = None \<and>
         list_all2 (\<lambda>f f'. \<exists>d p g c c' g'. f = JObj d \<and> map_of d ''properties'' = Some (JObj p) \<and>
             map_of d ''geometry'' = Some g \<and> json_lookup g ''coordinates'' = Some c \<and>
             trim_precision c = Inr c' \<and>
             json_lookup f' ''properties'' = Some (JObj (kept_props ''name1'' ''name'' p)) \<and>
             json_lookup f' ''geometry'' = Some g' \<and> json_lookup g' ''coordinates'' = Some c')
           (features_of gj) (features_of gj')"
proof -
  from mrn_clean_Inr [OF assms]
  have meta: "json_lookup gj' ''name'' = None \<and> json_lookup gj' ''crs'' = None"
    and fs: "list_all2 (\<lambda>x y. mrn_feature x = Inr y) (features_of gj) (features_of gj')"
    by auto
  from fs have "list_all2 (\<lambda>f f'. \<exists>d p g c c' g'. f = JObj d \<and> map_of d ''properties'' = Some (JObj p) \<and>
             map_of d ''geometry'' = Some g \<and> json_lookup g ''coordinates'' = Some c \<and>
             trim_precision c = Inr c' \<and>
             json_lookup f' ''properties'' = Some (JObj (kept_props ''name1'' ''name'' p)) \<and>
             json_lookup f' ''geometry'' = Some g' \<and> json_lookup g' ''coordinates'' = Some c')
           (features_of gj) (features_of gj')"
    by (rule list_all2_mono) (rule mrn_feature_Inr)
  with meta show ?thesis by blast
qed

text \<open>
  C6. The MRN cleanup is not idempotent, against the spec's idempotence property
  for every policy: run again on its own output it raises \<open>KeyError('name')\<close>,
  because the first run deleted the collection's \<open>name\<close>.
\<close>

theorem mrn_clean_not_idempotent:
  assumes "json_wf gj" and "mrn_clean_json gj = Inr gj'"
  shows "mrn_clean_json gj' = Inl (KeyError ''name'')"
proof -
  from mrn_clean_Inr [OF assms] obtain d' where
    d': "gj' = JObj d'" and n: "map_of d' ''name'' = None"
    by auto
  then have "dict_delitem d' ''name'' = None"
    by (simp add: dict_delitem_None_iff map_of_eq_None_iff)
  with d' show ?thesis by (simp add: mrn_clean_json_def)
qed

text \<open>
  C7. The MRN cleanup requires the collection attributes the spec only asks it
  to drop: a collection without \<open>name\<close> raises \<open>KeyError('name')\<close>, and one with
  \<open>name\<close> but without \<open>crs\<close> raises \<open>KeyError('crs')\<close>, before any feature is
  touched.
\<close>

theorem mrn_clean_missing_metadata:
  "(map_of d ''name'' = None \<longrightarrow> mrn_clean_json (JObj d) = Inl (KeyError ''name'')) \<and>
   (map_of d ''name'' \<noteq> None \<longrightarrow> map_of d ''crs'' = None \<longrightarrow>
      mrn_clean_json (JObj d) = Inl (KeyError ''crs''))"
proof (intro conjI impI)
  assume "map_of d ''name'' = None"
  then have "dict_delitem d ''name'' = None"
    by (simp add: dict_delitem_None_iff map_of_eq_None_iff)
  then show "mrn_clean_json (JObj d) = Inl (KeyError ''name'')"
    by (simp add: mrn_clean_json_def)
next
  assume n: "map_of d ''name'' \<noteq> None" and c: "map_of d ''crs'' = None"
  from n obtain d1 where d1: "dict_delitem d ''name'' = Some d1"
    by (cases "dict_delitem d ''name''") (auto simp: dict_delitem_None_iff map_of_eq_None_iff)
  from dict_delitem_subset [OF d1] c have "''crs'' \<notin> fst ` set d1"
    by (force simp: map_of_eq_None_iff)
  then have "dict_delitem d1 ''crs'' = None" by (simp add: dict_delitem_None_iff)
  with d1 show "mrn_clean_json (JObj d) = Inl (KeyError ''crs'')"
    by (simp add: mrn_clean_json_def)
qed

text \<open>
  C8. GeoJSON allows a feature's \<open>properties\<close> to be \<open>null\<close>; the reducer then
  raises \<open>AttributeError\<close> (\<open>None\<close> has no \<open>get\<close>) and the whole run aborts,
  although the spec promises an empty property dict for a feature without the
  policy's source key. The first such feature, after features the reducer
  accepts, decides the outcome.
\<close>

theorem remove_extra_properties_null_properties:
  assumes "json_lookup gj ''features'' = Some (JList (pre @ f # post))"
    and "\<forall>x \<in> set pre. \<exists>y. reduce_feature ''name'' ''name'' x = Inr y"
    and "json_lookup f ''properties'' = Some JNull"
  shows "remove_extra_properties_json gj = Inl (AttributeError ''NoneType'')"
proof -
  from assms(3) obtain d where "f = JObj d" "map_of d ''properties'' = Some JNull"
    by (cases f) auto
  then have "reduce_feature ''name'' ''name'' f = Inl (AttributeError ''NoneType'')"
    by (simp add: reduce_feature_JObj)
  with assms(1,2) show ?thesis
    unfolding remove_extra_properties_json_def by (rule update_features_first_Inl)
qed

end
