(* ===== verification/Pipeline.thy ===== *)
theory Pipeline
  imports Reducer "HOL-Library.Sublist"
begin

text \<open>
  The orchestrator of \<^verbatim>\<open>src/layers/generate_layers.py\<close>: \<^verbatim>\<open>main\<close> (lines 14--35)
  runs \<^verbatim>\<open>generatePolygonAmenity\<close> for schools and hospitals (39--77),
  \<^verbatim>\<open>makeMRN\<close> (80--135) and \<^verbatim>\<open>makeParliamentaryConstituencies\<close> (138--183),
  each a cleanup of the previous run's files, calls of external programs
  through \<^verbatim>\<open>run\<close> (186--188), and for three datasets a rewrite of the GeoJSON
  file in place (\<^verbatim>\<open>remove_extra_properties\<close>, 192--206, and the cleanup block of
  \<^verbatim>\<open>makeMRN\<close>).

  The world is the part of the machine the script observes: the working
  directory (\<open>files\<close>, a map from paths to entries; a GeoJSON file holds the value
  \<open>json.load\<close> reads from it, other files are opaque) and standard output
  (\<open>out\<close>, the lines printed so far). A step is a function of the world
  returning a result or an exception together with the new world
  (\<open>('s, 'e, 'a) sexn\<close> of Prelude), so the files written before an exception
  stay written. The external programs are a parameter \<open>tool\<close>: given the
  argument list and the files, the exit code and the new files. Nothing is
  assumed about them; every theorem holds for every behaviour of the tools
  unless it states a property of the tool as a hypothesis.

  Two compositional predicates carry the proofs: \<open>logs m L\<close> describes what a
  step prints (closed under \<open>bindS\<close> by \<open>logs_bindS\<close>), and \<open>confined m P\<close>
  the files it may change (\<open>confined_bindS\<close>). The properties are the order of
  the output, the exit status, the behaviour of the cleanup blocks, the
  effect of an exception on the files and on the tile builder, and the
  isolation of the datasets.
\<close>

section \<open>The world\<close>

datatype fentry = JsonFile json | Blob string | Dir

type_synonym fs = "string \<Rightarrow> fentry option"

record world =
  files :: fs
  out :: "string list"

type_synonym tool = "string list \<Rightarrow> fs \<Rightarrow> int \<times> fs"

type_synonym 'a act = "(world, pyexc, 'a) sexn"

fun py_join :: "string \<Rightarrow> string list \<Rightarrow> string" where
  "py_join sep [] = []"
| "py_join sep [x] = x"
| "py_join sep (x # xs) = x @ sep @ py_join sep xs"

definition py_print :: "string \<Rightarrow> unit act" where
  "py_print s = (\<lambda>w. (Inr (), w\<lparr>out := out w @ [s]\<rparr>))"

text \<open>\<open>run(args)\<close>: print the command, run it, raise on a non-zero exit code.\<close>

definition run :: "tool \<Rightarrow> string list \<Rightarrow> unit act" where
  "run tool args =
     bindS (py_print (''> '' @ py_join '' '' args)) (\<lambda>_ w.
       (let (rc, fs') = tool args (files w); w' = w\<lparr>files := fs'\<rparr>
        in if rc = 0 then (Inr (), w') else (Inl (CalledProcessError rc args), w')))"

section \<open>Files\<close>

definition os_remove :: "string \<Rightarrow> unit act" where
  "os_remove p = (\<lambda>w. case files w p of
       None \<Rightarrow> (Inl (FileNotFoundError p), w)
     | Some Dir \<Rightarrow> (Inl (IsADirectoryError p), w)
     | Some _ \<Rightarrow> (Inr (), w\<lparr>files := (files w)(p := None)\<rparr>))"

definition under :: "string \<Rightarrow> string \<Rightarrow> bool" where
  "under p q \<longleftrightarrow> q = p \<or> prefix (p @ ''/'') q"

definition rmtree :: "string \<Rightarrow> unit act" where
  "rmtree p = (\<lambda>w. case files w p of
       None \<Rightarrow> (Inl (FileNotFoundError p), w)
     | Some Dir \<Rightarrow> (Inr (), w\<lparr>files := (\<lambda>q. if under p q then None else files w q)\<rparr>)
     | Some _ \<Rightarrow> (Inl (NotADirectoryError p), w))"

datatype rm_op = Remove string | Rmtree string

primrec rm_step :: "rm_op \<Rightarrow> unit act" where
  "rm_step (Remove p) = os_remove p"
| "rm_step (Rmtree p) = rmtree p"

text \<open>
  \<open>try: op1; op2; op3 except: pass\<close>: the removals run in order and the first
  exception ends the block, silently.
\<close>

fun cleanup :: "rm_op list \<Rightarrow> unit act" where
  "cleanup [] = returnS ()"
| "cleanup (op # ops) = (\<lambda>w. case rm_step op w of
       (Inl e, w') \<Rightarrow> (Inr (), w')
     | (Inr u, w') \<Rightarrow> cleanup ops w')"

text \<open>\<open>with open(path) as f: json.load(f)\<close> and \<open>open(path, "w").write(json.dumps(gj))\<close>.\<close>

definition read_json :: "string \<Rightarrow> json act" where
  "read_json p = (\<lambda>w. case files w p of
       None \<Rightarrow> (Inl (FileNotFoundError p), w)
     | Some Dir \<Rightarrow> (Inl (IsADirectoryError p), w)
     | Some (Blob b) \<Rightarrow> (Inl (JSONDecodeError p), w)
     | Some (JsonFile j) \<Rightarrow> (Inr j, w))"

definition write_json :: "string \<Rightarrow> json \<Rightarrow> unit act" where
  "write_json p j = (\<lambda>w. case files w p of
       Some Dir \<Rightarrow> (Inl (IsADirectoryError p), w)
     | _ \<Rightarrow> (Inr (), w\<lparr>files := (files w)(p \<mapsto> JsonFile j)\<rparr>))"

section \<open>The datasets\<close>

definition remove_extra_properties :: "string \<Rightarrow> unit act" where
  "remove_extra_properties path =
     bindS (py_print (''Removing extra properties from '' @ path)) (\<lambda>_.
     bindS (read_json path) (\<lambda>gj.
     bindS (liftS (remove_extra_properties_json gj)) (\<lambda>gj'.
     write_json path gj')))"

definition generatePolygonAmenity :: "tool \<Rightarrow> string \<Rightarrow> string \<Rightarrow> string \<Rightarrow> unit act" where
  "generatePolygonAmenity tool osm_input amenity filename =
     bindS (cleanup [Remove (filename @ ''.osm.pbf''), Remove (filename @ ''.geojson''),
                     Remove (filename @ ''.pmtiles'')]) (\<lambda>_.
     bindS (run tool [''osmium'', ''tags-filter'', osm_input, ''nwr/amenity='' @ amenity,
                      ''-o'', filename @ ''.osm.pbf'']) (\<lambda>_.
     bindS (run tool [''osmium'', ''export'', filename @ ''.osm.pbf'', ''--geometry-type=polygon'',
                      ''-o'', filename @ ''.geojson'']) (\<lambda>_.
     bindS (remove_extra_properties (filename @ ''.geojson'')) (\<lambda>_.
     run tool [''tippecanoe'', filename @ ''.geojson'', ''-o'', filename @ ''.pmtiles'']))))"

definition mrn_url :: string where
  "mrn_url = ''https://maps.dft.gov.uk/major-road-network-shapefile/Major_Road_Network_2018_Open_Roads.zip''"

text \<open>Lines 81--132 of \<^verbatim>\<open>makeMRN\<close>: everything before the tile builder runs.\<close>

definition mrn_convert :: "tool \<Rightarrow> unit act" where
  "mrn_convert tool =
     bindS (cleanup [Remove ''Major_Road_Network_2018_Open_Roads.zip'', Rmtree ''mrn'',
                     Remove ''mrn.pmtiles'']) (\<lambda>_.
     bindS (run tool [''wget'', mrn_url]) (\<lambda>_.
     bindS (run tool [''unzip'', ''Major_Road_Network_2018_Open_Roads.zip'', ''-d'', ''mrn'']) (\<lambda>_.
     bindS (run tool [''ogr2ogr'', ''-f'', ''GeoJSON'', ''mrn/mrn.geojson'', ''-t_srs'', ''EPSG:4326'',
                      ''mrn/Major_Road_Network_2018_Open_Roads.shp'']) (\<lambda>_.
     bindS (py_print (''Cleaning up '' @ ''mrn/mrn.geojson'')) (\<lambda>_.
     bindS (read_json ''mrn/mrn.geojson'') (\<lambda>gj.
     bindS (liftS (mrn_clean_json gj)) (\<lambda>gj'.
     write_json ''mrn/mrn.geojson'' gj')))))))"

definition makeMRN :: "tool \<Rightarrow> unit act" where
  "makeMRN tool =
     bindS (mrn_convert tool) (\<lambda>_.
     run tool [''tippecanoe'', ''mrn/mrn.geojson'', ''-o'', ''mrn.pmtiles''])"

definition boundary_url :: string where
  "boundary_url = ''https://api.os.uk/downloads/v1/products/BoundaryLine/downloads?area=GB&format=GeoPackage&redirect''"

definition constituency_sql :: string where
  "constituency_sql =
     ''SELECT Name, Census_Code, geometry FROM westminster_const WHERE Census_Code LIKE ''
     @ [char_of (39::nat)] @ ''E%'' @ [char_of (39::nat)]"

definition makeParliamentaryConstituencies :: "tool \<Rightarrow> unit act" where
  "makeParliamentaryConstituencies tool =
     bindS (cleanup [Remove ''boundary_lines.zip'', Rmtree ''boundary_lines'',
                     Remove ''parliamentary_constituencies.pmtiles'']) (\<lambda>_.
     bindS (run tool [''wget'', boundary_url, ''-O'', ''boundary_lines.zip'']) (\<lambda>_.
     bindS (run tool [''unzip'', ''boundary_lines.zip'', ''-d'', ''boundary_lines'']) (\<lambda>_.
     bindS (run tool [''ogr2ogr'', ''-f'', ''GeoJSON'', ''boundary_lines/parliamentary_constituencies.geojson'',
                      ''-t_srs'', ''EPSG:4326'', ''boundary_lines/Data/bdline_gb.gpkg'', ''-sql'',
                      constituency_sql]) (\<lambda>_.
     run tool [''tippecanoe'', ''boundary_lines/parliamentary_constituencies.geojson'', ''-o'',
               ''parliamentary_constituencies.pmtiles'']))))"

definition main :: "tool \<Rightarrow> string \<Rightarrow> unit act" where
  "main tool osm_input =
     bindS (generatePolygonAmenity tool osm_input ''school'' ''schools'') (\<lambda>_.
     bindS (generatePolygonAmenity tool osm_input ''hospital'' ''hospitals'') (\<lambda>_.
     bindS (makeMRN tool) (\<lambda>_.
     makeParliamentaryConstituencies tool)))"

text \<open>The exit status of the process: an uncaught exception ends Python with status 1.\<close>

definition exit_status :: "unit pyres \<Rightarrow> int" where
  "exit_status r = (case r of Inr _ \<Rightarrow> 0 | Inl _ \<Rightarrow> 1)"

section \<open>Standard output of a step\<close>

text \<open>
  \<open>logged L r new\<close>: the lines \<open>new\<close> printed by a step with result \<open>r\<close> are a
  prefix of \<open>L\<close>, all of \<open>L\<close> when the step returned normally, and end with
  the command line of the command whose failure the step raises.
  \<open>logs m L\<close>: this holds of the step \<open>m\<close> in every world.
\<close>

definition logged :: "string list \<Rightarrow> 'a pyres \<Rightarrow> string list \<Rightarrow> bool" where
  "logged L r new \<longleftrightarrow> prefix new L \<and> (\<forall>x. r = Inr x \<longrightarrow> new = L) \<and>
     (\<forall>rc args. r = Inl (CalledProcessError rc args) \<longrightarrow>
        (\<exists>pre. new = pre @ [''> '' @ py_join '' '' args]))"

definition logs :: "'a act \<Rightarrow> string list \<Rightarrow> bool" where
  "logs m L \<longleftrightarrow> (\<forall>w. \<exists>new. out (snd (m w)) = out w @ new \<and> logged L (fst (m w)) new)"

definition amenity_log :: "string \<Rightarrow> string \<Rightarrow> string \<Rightarrow> string list" where
  "amenity_log osm_input amenity filename =
     [''> osmium tags-filter '' @ osm_input @ '' nwr/amenity='' @ amenity @ '' -o '' @ filename @ ''.osm.pbf'',
      ''> osmium export '' @ filename @ ''.osm.pbf --geometry-type=polygon -o '' @ filename @ ''.geojson'',
      ''Removing extra properties from '' @ filename @ ''.geojson'',
      ''> tippecanoe '' @ filename @ ''.geojson -o '' @ filename @ ''.pmtiles'']"

definition mrn_convert_log :: "string list" where
  "mrn_convert_log =
     [''> wget '' @ mrn_url,
      ''> unzip Major_Road_Network_2018_Open_Roads.zip -d mrn'',
      ''> ogr2ogr -f GeoJSON mrn/mrn.geojson -t_srs EPSG:4326 mrn/Major_Road_Network_2018_Open_Roads.shp'',
      ''Cleaning up mrn/mrn.geojson'']"

definition mrn_tiles_line :: string where
  "mrn_tiles_line = ''> tippecanoe mrn/mrn.geojson -o mrn.pmtiles''"

definition constituencies_log :: "string list" where
  "constituencies_log =
     [''> wget '' @ boundary_url @ '' -O boundary_lines.zip'',
      ''> unzip boundary_lines.zip -d boundary_lines'',
      ''> ogr2ogr -f GeoJSON boundary_lines/parliamentary_constituencies.geojson -t_srs EPSG:4326 boundary_lines/Data/bdline_gb.gpkg -sql '' @ constituency_sql,
      ''> tippecanoe boundary_lines/parliamentary_constituencies.geojson -o parliamentary_constituencies.pmtiles'']"

definition main_log :: "string \<Rightarrow> string list" where
  "main_log osm_input =
     amenity_log osm_input ''school'' ''schools'' @ amenity_log osm_input ''hospital'' ''hospitals'' @
     mrn_convert_log @ [mrn_tiles_line] @ constituencies_log"

section \<open>Files a step may change\<close>

text \<open>
  \<open>confined m P\<close>: the step \<open>m\<close> changes no file outside the paths \<open>P\<close> (a path
  is inside \<open>p\<close> when it is \<open>p\<close> or lies in the directory \<open>p\<close>). An external
  program is \<open>tool_confined\<close> when it changes only files inside its arguments;
  this is the collaborator contract under which the datasets do not interfere.
\<close>

definition confined :: "'a act \<Rightarrow> string list \<Rightarrow> bool" where
  "confined m P \<longleftrightarrow>
     (\<forall>w q. (\<forall>p \<in> set P. \<not> under p q) \<longrightarrow> files (snd (m w)) q = files w q)"

definition tool_confined :: "tool \<Rightarrow> bool" where
  "tool_confined tool \<longleftrightarrow>
     (\<forall>args fs q. (\<forall>a \<in> set args. \<not> under a q) \<longrightarrow> snd (tool args fs) q = fs q)"

text \<open>The paths and other arguments \<^verbatim>\<open>generatePolygonAmenity\<close> passes on.\<close>

definition amenity_args :: "string \<Rightarrow> string \<Rightarrow> string \<Rightarrow> string list" where
  "amenity_args osm_input amenity filename =
     [filename @ ''.osm.pbf'', filename @ ''.geojson'', filename @ ''.pmtiles'', osm_input,
      ''osmium'', ''tags-filter'', ''nwr/amenity='' @ amenity, ''-o'', ''export'',
      ''--geometry-type=polygon'', ''tippecanoe'']"

section \<open>Evaluation of the steps\<close>

lemma run_apply:
  "run tool args w =
     (if fst (tool args (files w)) = 0 then Inr ()
      else Inl (CalledProcessError (fst (tool args (files w))) args),
      w\<lparr>files := snd (tool args (files w)), out := out w @ [''> '' @ py_join '' '' args]\<rparr>)"
  by (simp add: run_def py_print_def bindS_def split_def Let_def)

lemma run_fails:
  "fst (tool args (files w)) = rc \<Longrightarrow> rc \<noteq> 0 \<Longrightarrow>
   \<exists>w'. run tool args w = (Inl (CalledProcessError rc args), w')"
  by (simp add: run_apply)

lemma rm_step_files: "files (snd (rm_step op w)) q = None \<or> files (snd (rm_step op w)) q = files w q"
  by (cases op) (auto simp: os_remove_def rmtree_def split: option.splits fentry.splits)

text \<open>The \<open>try\<close> block never raises, and it only deletes.\<close>

lemma cleanup_result: "fst (cleanup ops w) = Inr ()"
proof (induction ops arbitrary: w)
  case (Cons op ops)
  obtain r w' where "rm_step op w = (r, w')" by (cases "rm_step op w")
  with Cons.IH [of w'] show ?case by (cases r) auto
qed simp

lemma cleanup_files:
  "files (snd (cleanup ops w)) q = None \<or> files (snd (cleanup ops w)) q = files w q"
proof (induction ops arbitrary: w)
  case (Cons op ops)
  obtain r w' where rw: "rm_step op w = (r, w')" by (cases "rm_step op w")
  from rm_step_files [of op w q] rw have "files w' q = None \<or> files w' q = files w q" by simp
  with Cons.IH [of w'] rw show ?case by (cases r) auto
qed simp

lemma cleanup_Inr: "\<exists>w'. cleanup ops w = (Inr (), w')"
  using cleanup_result [of ops w] by (cases "cleanup ops w") simp

lemma cleanup_Remove_missing: "files w p = None \<Longrightarrow> cleanup (Remove p # ops) w = (Inr (), w)"
  by (simp add: os_remove_def)

lemma cleanup_Remove_present:
  "files w p = Some e \<Longrightarrow> e \<noteq> Dir \<Longrightarrow>
   cleanup (Remove p # ops) w = cleanup ops (w\<lparr>files := (files w)(p := None)\<rparr>)"
  by (cases e) (simp_all add: os_remove_def)

section \<open>Exceptions of the JSON steps\<close>

text \<open>
  The in-memory steps raise \<open>KeyError\<close>, \<open>TypeError\<close>, \<open>AttributeError\<close> or the
  data-shape error, never \<open>CalledProcessError\<close>: only \<^verbatim>\<open>run\<close> raises that.
\<close>

lemma json_getitem_no_cpe: "json_getitem x k \<noteq> Inl (CalledProcessError rc a)"
  by (cases x) (auto simp: dict_get_def split: option.splits)

lemma json_get_no_cpe: "json_get x k \<noteq> Inl (CalledProcessError rc a)"
  by (cases x) auto

lemma json_setitem_no_cpe: "json_setitem x k v \<noteq> Inl (CalledProcessError rc a)"
  by (cases x) auto

lemma json_delitem_no_cpe: "json_delitem x k \<noteq> Inl (CalledProcessError rc a)"
  by (cases x) (auto split: option.splits)

lemma json_iter_no_cpe: "json_iter x \<noteq> Inl (CalledProcessError rc a)"
  by (cases x) auto

lemma for_each_mut_no_cpe:
  "(\<And>x. f x \<noteq> Inl (CalledProcessError rc a)) \<Longrightarrow> for_each_mut f c \<noteq> Inl (CalledProcessError rc a)"
  by (cases c) (simp_all add: bindE_never mapE_never)

lemma trim_precision_no_cpe: "trim_precision j \<noteq> Inl (CalledProcessError rc a)"
  using trim_precision_error [of j "CalledProcessError rc a"] by auto

lemmas json_no_cpe = json_getitem_no_cpe json_get_no_cpe json_setitem_no_cpe json_delitem_no_cpe
  trim_precision_no_cpe

lemma reduce_feature_no_cpe: "reduce_feature src dst x \<noteq> Inl (CalledProcessError rc a)"
  unfolding reduce_feature_def by (intro bindE_never json_no_cpe)

lemma update_features_no_cpe:
  "(\<And>x. f x \<noteq> Inl (CalledProcessError rc a)) \<Longrightarrow> update_features f gj \<noteq> Inl (CalledProcessError rc a)"
  unfolding update_features_def by (intro bindE_never json_no_cpe for_each_mut_no_cpe)

lemma remove_extra_properties_json_no_cpe:
  "remove_extra_properties_json gj \<noteq> Inl (CalledProcessError rc a)"
  unfolding remove_extra_properties_json_def by (intro update_features_no_cpe reduce_feature_no_cpe)

lemma mrn_feature_no_cpe: "mrn_feature x \<noteq> Inl (CalledProcessError rc a)"
  unfolding mrn_feature_def by (intro bindE_never json_no_cpe reduce_feature_no_cpe)

lemma mrn_clean_json_no_cpe: "mrn_clean_json gj \<noteq> Inl (CalledProcessError rc a)"
  unfolding mrn_clean_json_def by (intro bindE_never json_no_cpe update_features_no_cpe mrn_feature_no_cpe)

lemma logsI:
  "(\<And>w. \<exists>new. out (snd (m w)) = out w @ new \<and> logged L (fst (m w)) new) \<Longrightarrow> logs m L"
  by (simp add: logs_def)

lemma logsD:
  "logs m L \<Longrightarrow> \<exists>new. out (snd (m w)) = out w @ new \<and> logged L (fst (m w)) new"
  by (simp add: logs_def)

lemma logged_Inl_append: "logged L1 (Inl e) new \<Longrightarrow> logged (L1 @ L2) (Inl e) new"
  by (auto simp: logged_def)

lemma logged_after: "logged L2 r new \<Longrightarrow> logged (L1 @ L2) r (L1 @ new)"
  by (fastforce simp: logged_def)

lemma logs_bindS:
  assumes m: "logs m L1" and f: "\<And>x. logs (f x) L2" and L: "L = L1 @ L2"
  shows "logs (bindS m f) L"
proof (rule logsI)
  fix w
  obtain r w1 where mw: "m w = (r, w1)" by (cases "m w")
  from logsD [OF m, of w] mw
  obtain new1 where n1: "out w1 = out w @ new1" "logged L1 r new1"
    by auto
  show "\<exists>new. out (snd (bindS m f w)) = out w @ new \<and> logged L (fst (bindS m f w)) new"
  proof (cases r)
    case (Inl e)
    with mw have "bindS m f w = (Inl e, w1)" by simp
    with n1 Inl L show ?thesis by (intro exI [of _ new1]) (simp add: logged_Inl_append)
  next
    case (Inr x)
    with mw have b: "bindS m f w = f x w1" by simp
    from Inr n1 have "new1 = L1" by (simp add: logged_def)
    from logsD [OF f [of x], of w1]
    obtain new2 where n2: "out (snd (f x w1)) = out w1 @ new2" "logged L2 (fst (f x w1)) new2"
      by blast
    from n1(1) n2 \<open>new1 = L1\<close> L show ?thesis
      unfolding b by (intro exI [of _ "L1 @ new2"]) (simp add: logged_after)
  qed
qed

lemma logs_silent:
  "(\<And>w. out (snd (m w)) = out w) \<Longrightarrow> (\<And>w rc a. fst (m w) \<noteq> Inl (CalledProcessError rc a)) \<Longrightarrow>
   logs m []"
  by (rule logsI) (auto simp: logged_def)

lemma logs_py_print: "logs (py_print s) [s]"
  by (rule logsI) (simp add: py_print_def logged_def)

lemma logs_run: "logs (run tool args) [''> '' @ py_join '' '' args]"
  by (rule logsI) (auto simp: run_apply logged_def)

lemma out_rm_step [simp]: "out (snd (rm_step op w)) = out w"
  by (cases op) (auto simp: os_remove_def rmtree_def split: option.splits fentry.splits)

lemma out_cleanup: "out (snd (cleanup ops w)) = out w"
proof (induction ops arbitrary: w)
  case (Cons op ops)
  obtain r w' where rw: "rm_step op w = (r, w')" by (cases "rm_step op w")
  from out_rm_step [of op w] rw have "out w' = out w" by simp
  with Cons.IH [of w'] rw show ?case by (cases r) auto
qed simp

lemma logs_cleanup: "logs (cleanup ops) []"
  by (rule logs_silent) (simp_all add: out_cleanup cleanup_result)

lemma logs_read_json: "logs (read_json p) []"
  by (rule logs_silent) (simp_all add: read_json_def split: option.splits fentry.splits)

lemma logs_write_json: "logs (write_json p j) []"
  by (rule logs_silent) (simp_all add: write_json_def split: option.splits fentry.splits)

lemma logs_liftS: "(\<And>rc a. r \<noteq> Inl (CalledProcessError rc a)) \<Longrightarrow> logs (liftS r) []"
  by (rule logs_silent) simp_all

lemmas logs_steps = logs_py_print logs_run logs_cleanup logs_read_json logs_write_json logs_liftS

lemma logs_remove_extra_properties:
  "logs (remove_extra_properties p) [''Removing extra properties from '' @ p]"
  unfolding remove_extra_properties_def
  by (rule logs_bindS logs_steps remove_extra_properties_json_no_cpe refl)+ simp

lemma logs_generatePolygonAmenity:
  "logs (generatePolygonAmenity tool osm_input amenity filename) (amenity_log osm_input amenity filename)"
  unfolding generatePolygonAmenity_def
  by (rule logs_bindS logs_steps logs_remove_extra_properties refl)+ (simp add: amenity_log_def)

lemma logs_mrn_convert: "logs (mrn_convert tool) mrn_convert_log"
  unfolding mrn_convert_def
  by (rule logs_bindS logs_steps mrn_clean_json_no_cpe refl)+ (simp add: mrn_convert_log_def)

lemma logs_makeMRN: "logs (makeMRN tool) (mrn_convert_log @ [mrn_tiles_line])"
  unfolding makeMRN_def
  by (rule logs_bindS logs_steps logs_mrn_convert refl)+ (simp add: mrn_tiles_line_def)

lemma logs_makeParliamentaryConstituencies:
  "logs (makeParliamentaryConstituencies tool) constituencies_log"
  unfolding makeParliamentaryConstituencies_def
  by (rule logs_bindS logs_steps refl)+ (simp add: constituencies_log_def)

lemma set_logs_prefix:
  "logs m L \<Longrightarrow> set (drop (length (out w)) (out (snd (m w)))) \<subseteq> set L"
  by (auto simp: logs_def logged_def dest!: spec [of _ w] set_mono_prefix)

section \<open>Properties of the orchestrator\<close>

text \<open>
  C15: standard output. Whatever the external programs do, \<^verbatim>\<open>main\<close> prints
  a prefix of the fixed sequence \<open>main_log\<close> (the command lines and progress
  messages in the order schools, hospitals, roads, constituencies), the whole
  sequence when it returns normally, and, when it stops because a command
  failed, that command's line as the last line: each command is announced
  before it runs, whatever its outcome.
\<close>

theorem main_output_order: "logs (main tool osm_input) (main_log osm_input)"
  unfolding main_def main_log_def
  by (rule logs_bindS logs_generatePolygonAmenity logs_makeMRN
        logs_makeParliamentaryConstituencies refl)+ simp

text \<open>
  C16: exit status. When the first external command fails with exit code
  \<open>rc\<close>, \<^verbatim>\<open>main\<close> stops with \<^verbatim>\<open>CalledProcessError\<close> for that command, and
  the process ends with status 1 (an uncaught exception), not with \<open>rc\<close>.
\<close>

theorem main_tool_failure_status:
  assumes "\<forall>fs. fst (tool [''osmium'', ''tags-filter'', osm_input, ''nwr/amenity=school'', ''-o'',
                           ''schools.osm.pbf''] fs) = rc"
    and "rc \<noteq> 0"
  shows "fst (main tool osm_input w) =
           Inl (CalledProcessError rc [''osmium'', ''tags-filter'', osm_input, ''nwr/amenity=school'',
                                        ''-o'', ''schools.osm.pbf'']) \<and>
         exit_status (fst (main tool osm_input w)) = 1"
proof -
  obtain w1 where c: "cleanup [Remove ''schools.osm.pbf'', Remove ''schools.geojson'',
                               Remove ''schools.pmtiles''] w = (Inr (), w1)"
    using cleanup_Inr by fastforce
  obtain w2 where r: "run tool [''osmium'', ''tags-filter'', osm_input, ''nwr/amenity=school'', ''-o'',
                                ''schools.osm.pbf''] w1 =
      (Inl (CalledProcessError rc [''osmium'', ''tags-filter'', osm_input, ''nwr/amenity=school'',
                                   ''-o'', ''schools.osm.pbf'']), w2)"
    using run_fails [of tool _ w1 rc] assms by blast
  have "generatePolygonAmenity tool osm_input ''school'' ''schools'' w =
      (Inl (CalledProcessError rc [''osmium'', ''tags-filter'', osm_input, ''nwr/amenity=school'',
                                   ''-o'', ''schools.osm.pbf'']), w2)"
    unfolding generatePolygonAmenity_def using c r by simp
  then show ?thesis by (simp add: main_def exit_status_def)
qed

text \<open>
  C17: a failed run can leave the previous run's artifacts. The cleanup block
  of \<^verbatim>\<open>generatePolygonAmenity\<close> stops at the first file that is missing; when
  the \<^verbatim>\<open>.osm.pbf\<close> of the previous run is gone and the first \<^verbatim>\<open>osmium\<close>
  call then fails, every file of the working directory is left as it was,
  including an old \<^verbatim>\<open>.geojson\<close> and \<^verbatim>\<open>.pmtiles\<close>.
\<close>

theorem amenity_failed_run_keeps_old_tiles:
  assumes "files w (filename @ ''.osm.pbf'') = None"
    and "tool [''osmium'', ''tags-filter'', osm_input, ''nwr/amenity='' @ amenity, ''-o'',
               filename @ ''.osm.pbf''] (files w) = (rc, files w)"
    and "rc \<noteq> 0"
  shows "fst (generatePolygonAmenity tool osm_input amenity filename w) =
           Inl (CalledProcessError rc [''osmium'', ''tags-filter'', osm_input, ''nwr/amenity='' @ amenity,
                                        ''-o'', filename @ ''.osm.pbf'']) \<and>
         files (snd (generatePolygonAmenity tool osm_input amenity filename w)) = files w"
  using assms
  by (simp add: generatePolygonAmenity_def cleanup_Remove_missing run_apply del: cleanup.simps)

text \<open>
  C18: cleanup misses are ignored. The cleanup block never raises, and it
  only deletes: every path afterwards is either gone or holds what it held.
\<close>

theorem cleanup_ignores_failures:
  "fst (cleanup ops w) = Inr () \<and>
   (\<forall>q. files (snd (cleanup ops w)) q = None \<or> files (snd (cleanup ops w)) q = files w q)"
  using cleanup_result cleanup_files by blast

text \<open>
  C19: cleanup removes present files. When the paths of the block are distinct
  and each holds a file (not a directory), the block deletes exactly them.
\<close>

theorem cleanup_removes_present:
  "distinct ps \<Longrightarrow> \<forall>p \<in> set ps. files w p \<noteq> None \<and> files w p \<noteq> Some Dir \<Longrightarrow>
   cleanup (map Remove ps) w = (Inr (), w\<lparr>files := \<lambda>q. if q \<in> set ps then None else files w q\<rparr>)"
proof (induction ps arbitrary: w)
  case (Cons p ps)
  then obtain e where e: "files w p = Some e" "e \<noteq> Dir" by auto
  let ?w' = "w\<lparr>files := (files w)(p := None)\<rparr>"
  from Cons.prems have "\<forall>p' \<in> set ps. files ?w' p' \<noteq> None \<and> files ?w' p' \<noteq> Some Dir" by auto
  with Cons.IH [of ?w'] Cons.prems(1)
  have "cleanup (map Remove ps) ?w' =
          (Inr (), w\<lparr>files := \<lambda>q. if q \<in> set (p # ps) then None else files w q\<rparr>)"
    by (auto simp: fun_eq_iff)
  with e show ?case by (simp add: cleanup_Remove_present del: cleanup.simps)
qed simp

text \<open>
  C20: a data-shape error stops the roads dataset before the tile builder.
  When \<^verbatim>\<open>makeMRN\<close> raises \<^verbatim>\<open>DataShapeError\<close>, its effect is that of the
  steps before \<^verbatim>\<open>tippecanoe\<close> alone, and the tile builder's command line is not
  printed.
\<close>

theorem makeMRN_shape_error_skips_tiles:
  assumes "fst (makeMRN tool w) = Inl (DataShapeError x)"
  shows "makeMRN tool w = mrn_convert tool w \<and>
         mrn_tiles_line \<notin> set (drop (length (out w)) (out (snd (makeMRN tool w))))"
proof -
  obtain r w1 where c: "mrn_convert tool w = (r, w1)" by (cases "mrn_convert tool w")
  have "\<forall>u. r \<noteq> Inr u"
  proof
    fix u
    show "r \<noteq> Inr u"
    proof
      assume "r = Inr u"
      with c assms show False
        by (simp add: makeMRN_def run_apply split: if_splits)
    qed
  qed
  then obtain e where "r = Inl e" by (cases r) auto
  with c have eq: "makeMRN tool w = mrn_convert tool w" by (simp add: makeMRN_def)
  have "mrn_tiles_line \<notin> set mrn_convert_log"
    by (simp add: mrn_tiles_line_def mrn_convert_log_def mrn_url_def)
  with set_logs_prefix [OF logs_mrn_convert, of w tool] eq show ?thesis by auto
qed

text \<open>
  C21: the reduction rewrites its file in place. When
  \<^verbatim>\<open>remove_extra_properties(path)\<close> returns, the file held a GeoJSON value whose
  reduction succeeded, the file now holds the reduced value, no other file
  changed, and one progress line was printed.
\<close>

theorem remove_extra_properties_in_place:
  "fst (remove_extra_properties path w) = Inr () \<Longrightarrow>
   \<exists>gj gj'. files w path = Some (JsonFile gj) \<and> remove_extra_properties_json gj = Inr gj' \<and>
     snd (remove_extra_properties path w) =
       w\<lparr>files := (files w)(path \<mapsto> JsonFile gj'),
         out := out w @ [''Removing extra properties from '' @ path]\<rparr>"
  by (auto simp: remove_extra_properties_def bindS_def py_print_def read_json_def write_json_def
           split: option.splits fentry.splits sum.splits)

text \<open>
  C22: a failed reduction leaves the files as they were: the file is opened for
  writing only after the whole loop over the features has returned.
\<close>

theorem remove_extra_properties_failure_atomic:
  "fst (remove_extra_properties path w) = Inl e \<Longrightarrow>
   files (snd (remove_extra_properties path w)) = files w"
  by (auto simp: remove_extra_properties_def bindS_def py_print_def read_json_def write_json_def
           split: option.splits fentry.splits sum.splits)

section \<open>Isolation of the datasets\<close>

lemma confinedI:
  "(\<And>w q. \<forall>p \<in> set P. \<not> under p q \<Longrightarrow> files (snd (m w)) q = files w q) \<Longrightarrow> confined m P"
  by (simp add: confined_def)

lemma confined_bindS:
  assumes m: "confined m P" and f: "\<And>x. confined (f x) P"
  shows "confined (bindS m f) P"
proof (rule confinedI)
  fix w q
  assume q: "\<forall>p \<in> set P. \<not> under p q"
  obtain r w1 where mw: "m w = (r, w1)" by (cases "m w")
  from m q mw have "files w1 q = files w q" by (auto simp: confined_def dest: spec [of _ w])
  with f q mw show "files (snd (bindS m f w)) q = files w q"
    by (cases r) (auto simp: confined_def)
qed

lemma confined_silent: "(\<And>w. files (snd (m w)) = files w) \<Longrightarrow> confined m P"
  by (simp add: confined_def)

lemma under_refl [simp]: "under p p"
  by (simp add: under_def)

lemma under_self_in: "p \<in> set P \<Longrightarrow> \<exists>x \<in> set P. under x p"
  using under_refl by blast

lemma confined_rm_step:
  "(case op of Remove p \<Rightarrow> p | Rmtree p \<Rightarrow> p) \<in> set P \<Longrightarrow> confined (rm_step op) P"
  by (cases op) (auto simp: confined_def os_remove_def rmtree_def intro: under_self_in
      split: option.splits fentry.splits)

lemma confined_cleanup:
  "\<forall>op \<in> set ops. (case op of Remove p \<Rightarrow> p | Rmtree p \<Rightarrow> p) \<in> set P \<Longrightarrow> confined (cleanup ops) P"
proof (induction ops)
  case (Cons op ops)
  have s: "confined (rm_step op) P" using Cons.prems by (simp add: confined_rm_step)
  have c: "confined (cleanup ops) P" using Cons by simp
  show ?case
  proof (rule confinedI)
    fix w q
    assume q: "\<forall>p \<in> set P. \<not> under p q"
    obtain r w1 where rw: "rm_step op w = (r, w1)" by (cases "rm_step op w")
    from s q rw have "files w1 q = files w q" by (auto simp: confined_def dest: spec [of _ w])
    with c q rw show "files (snd (cleanup (op # ops) w)) q = files w q"
      by (cases r) (auto simp: confined_def)
  qed
qed (simp add: confined_def)

lemma confined_run:
  assumes t: "tool_confined tool" and a: "set args \<subseteq> set P"
  shows "confined (run tool args) P"
proof (rule confinedI)
  fix w q
  assume "\<forall>p \<in> set P. \<not> under p q"
  with a have "\<forall>x \<in> set args. \<not> under x q" by blast
  with t show "files (snd (run tool args w)) q = files w q"
    by (simp add: tool_confined_def run_apply)
qed

lemma confined_write_json: "p \<in> set P \<Longrightarrow> confined (write_json p j) P"
  by (auto simp: confined_def write_json_def intro: under_self_in split: option.splits fentry.splits)

lemma confined_remove_extra_properties:
  "path \<in> set P \<Longrightarrow> confined (remove_extra_properties path) P"
  unfolding remove_extra_properties_def
  by (intro confined_bindS confined_write_json confined_silent)
    (auto simp: py_print_def read_json_def split: option.splits fentry.splits)

text \<open>
  C23: the datasets do not interfere. With external programs that change only
  files inside their arguments, \<^verbatim>\<open>generatePolygonAmenity\<close> changes no file
  outside the paths it names, so the schools run leaves the hospitals, roads and
  constituencies artifacts alone, and the other way round.
\<close>

theorem amenity_run_confined:
  assumes "tool_confined tool"
    and "\<forall>p \<in> set (amenity_args osm_input amenity filename). \<not> under p q"
  shows "files (snd (generatePolygonAmenity tool osm_input amenity filename w)) q = files w q"
proof -
  have "confined (generatePolygonAmenity tool osm_input amenity filename)
          (amenity_args osm_input amenity filename)"
    unfolding generatePolygonAmenity_def
    by (intro confined_bindS confined_cleanup confined_run confined_remove_extra_properties assms(1))
      (simp_all add: amenity_args_def)
  with assms(2) show ?thesis by (simp add: confined_def)
qed

end
