(* ===== verification/Spec2Isabelle.thy ===== *)
theory Spec2Isabelle
  imports Pipeline
begin

text \<open>
  A verification development for \<^verbatim>\<open>src/layers/generate_layers.py\<close>, the
  script that builds the ATIP map layers: for schools and hospitals it filters
  an OpenStreetMap extract with \<^verbatim>\<open>osmium\<close>, keeps only the \<open>name\<close> property
  of every feature and tiles the result with \<^verbatim>\<open>tippecanoe\<close>; for the Major
  Road Network it downloads and converts a shapefile, renames \<open>name1\<close> to
  \<open>name\<close>, drops the collection's \<open>name\<close> and \<open>crs\<close> and rounds every coordinate
  to 6 decimals; for the parliamentary constituencies it downloads, converts
  and tiles. Each dataset first deletes the files of a previous run.

  \<^bold>\<open>Theories.\<close>
  \<^item> Prelude: Python statements that may raise as sums \<open>'e + 'a\<close> (\<open>bindE\<close>,
    the loop \<open>mapE\<close> that stops at the first exception) and steps on a world
    \<open>'s \<Rightarrow> ('e + 'a) \<times> 's\<close> (\<open>bindS\<close>, \<open>liftS\<close>), with their shared lemmas.
  \<^item> PyDict: a Python \<open>dict\<close> as an insertion-ordered association list
    (\<open>dict_get\<close>, \<open>dict_setitem\<close>, \<open>dict_delitem\<close>), refined to \<open>map_of\<close>.
  \<^item> Json: the values \<open>json.load\<close> returns (\<open>json\<close>), the exceptions
    (\<open>pyexc\<close>), and subscripting, \<open>.get\<close>, item assignment, \<open>del\<close>, iteration
    and truth testing with CPython's exceptions.
  \<^item> Rounding: \<open>round(x, 6)\<close> of line 215 (\<open>py_round\<close>, \<open>round_half_even\<close>)
    and its contract, nearest with ties to even.
  \<^item> TrimPrecision: \<open>trim_precision\<close> (lines 211--217) and the typed
    coordinate tree it refines.
  \<^item> Reducer: the JSON transformations of \<^verbatim>\<open>remove_extra_properties\<close>
    (lines 196--203: \<open>reduce_feature\<close>, \<open>update_features\<close>,
    \<open>remove_extra_properties_json\<close>) and of the cleanup in \<^verbatim>\<open>makeMRN\<close>
    (lines 117--130: \<open>mrn_feature\<close>, \<open>mrn_clean_json\<close>).
  \<^item> Pipeline: the orchestrator, \<^verbatim>\<open>run\<close> (186--188), the \<open>try\<close>/\<open>except\<close>
    cleanup blocks (\<open>cleanup\<close> over \<open>os.remove\<close> and \<open>shutil.rmtree\<close>),
    \<^verbatim>\<open>remove_extra_properties\<close> with its file read and write (192--206),
    \<^verbatim>\<open>generatePolygonAmenity\<close> (39--77), \<^verbatim>\<open>makeMRN\<close> (80--135, split at the
    tile builder into \<open>mrn_convert\<close>), \<^verbatim>\<open>makeParliamentaryConstituencies\<close>
    (138--183) and \<^verbatim>\<open>main\<close> (24--35), as steps of a world of files and
    standard output.
  \<^item> Spec2Isabelle (this theory): example collections, example runs of the
    whole program with concrete external programs, and the witnesses that
    apply each property with hypotheses at a concrete input.

  \<^bold>\<open>How the parts interact.\<close> \<open>main\<close> sequences the four datasets with
  \<open>bindS\<close>; an exception anywhere ends the run, with the files written so far
  kept. The JSON steps run inside a dataset through \<open>read_json\<close>,
  \<open>liftS\<close> and \<open>write_json\<close>. The external programs are a parameter
  \<open>tool\<close> (arguments and files to exit code and files) of every theorem, so the
  theorems hold whatever the programs do, unless a hypothesis says otherwise
  (\<open>tool_confined\<close> for the isolation of the datasets).

  \<^bold>\<open>What the lemmas show.\<close> Reducer: the per-feature body is the spec's
  policy \<open>kept_props\<close> with every exception path (C1); the schools and
  hospitals reducer applies it to every feature, keeps every feature and
  every other key, and is idempotent (C2--C4); the MRN cleanup drops \<open>name\<close>
  and \<open>crs\<close> and trims the coordinates (C5), is not idempotent (C6), requires
  the attributes it deletes (C7); \<open>properties: null\<close> aborts the run (C8).
  TrimPrecision: shape preservation, idempotence, the exact domain (floats
  only, so integer coordinates are rejected), refinement of the typed tree,
  and the error bound (C9--C13). Rounding: the contract (C14). Pipeline: the
  order of the printed lines and that a failing command is announced before it
  ran (C15), the exit status on a tool failure (C16), the stale artifacts a
  failed run leaves because one missing file ends the cleanup block (C17),
  the cleanup block never raising and deleting exactly the present files
  (C18, C19), the tile builder not running after a data-shape error (C20),
  the in-place and all-or-nothing rewrite of a GeoJSON file (C21, C22), and
  the isolation of the datasets' files (C23).

  \<^bold>\<open>Abstractions.\<close> A float is its exact value as a rational, and
  \<open>round(x, 6)\<close> returns the decimal \<open>k / 10 ^ 6\<close> that \<open>json.dumps\<close> writes
  (see Rounding); NaN and infinities are not modelled. A GeoJSON file holds
  the value \<open>json.load\<close> reads from it (\<open>JsonFile\<close>), so \<open>json.dumps\<close> followed
  by \<open>json.load\<close> is the identity; other files are opaque (\<open>Blob\<close>) and fail
  to parse. The working directory is a flat map from paths to entries;
  \<open>shutil.rmtree\<close> removes every path below the directory. \<open>subprocess.run\<close>
  always finds the program: a missing executable is not modelled. No loop of
  the program is unbounded: every recursion is structural, so no fuel is used.

  \<^bold>\<open>Not modelled.\<close> \<open>argparse\<close> (lines 15--23; \<open>main\<close> takes the parsed
  \<^verbatim>\<open>--osm_input\<close> string), the text of \<open>json\<close> serialisation, and the
  external programs themselves (\<^verbatim>\<open>osmium\<close>, \<^verbatim>\<open>wget\<close>, \<^verbatim>\<open>unzip\<close>,
  \<^verbatim>\<open>ogr2ogr\<close>, \<^verbatim>\<open>tippecanoe\<close>), which are third-party code.
\<close>

section \<open>Example collections from the spec's scenarios\<close>

definition example_polygon :: json where
  "example_polygon = JObj [(''type'', JStr ''Polygon''),
     (''coordinates'', JList [JList [JList [JFloat 0, JFloat 0], JList [JFloat 1, JFloat 0],
                                     JList [JFloat 1, JFloat 1], JList [JFloat 0, JFloat 0]]])]"

definition school_feature :: json where
  "school_feature = JObj [(''type'', JStr ''Feature''), (''geometry'', example_polygon),
     (''properties'', JObj [(''name'', JStr ''Example School''), (''amenity'', JStr ''school'')])]"

definition schools_collection :: json where
  "schools_collection = JObj [(''type'', JStr ''FeatureCollection''), (''features'', JList [school_feature])]"

definition example_line :: "json \<Rightarrow> json" where
  "example_line c = JObj [(''type'', JStr ''LineString''), (''coordinates'', c)]"

definition mrn_collection :: "json list \<Rightarrow> json" where
  "mrn_collection fs = JObj [(''type'', JStr ''FeatureCollection''), (''name'', JStr ''mrn''),
     (''crs'', JObj [(''type'', JStr ''name''), (''properties'', JObj [(''name'', JStr ''EPSG:4326'')])]),
     (''features'', JList fs)]"

definition mrn_road :: "(string \<times> json) list \<Rightarrow> json \<Rightarrow> json" where
  "mrn_road props c = JObj [(''type'', JStr ''Feature''), (''properties'', JObj props),
     (''geometry'', example_line c)]"

definition a414_coords :: json where
  "a414_coords = JList [JList [JFloat (515007384512 / 10 ^ 10), JFloat (- 1246001 / 10 ^ 7)]]"

definition schools_reduced :: json where
  "schools_reduced = JObj [(''type'', JStr ''FeatureCollection''),
     (''features'', JList [JObj [(''type'', JStr ''Feature''), (''geometry'', example_polygon),
        (''properties'', JObj [(''name'', JStr ''Example School'')])]])]"

definition mrn_cleaned :: json where
  "mrn_cleaned = JObj [(''type'', JStr ''FeatureCollection''),
     (''features'', JList [mrn_road [(''name'', JStr ''A414'')]
        (JList [JList [JFloat (51500738 / 10 ^ 6), JFloat (- 1246 / 10 ^ 4)]])])]"

section \<open>Example runs of the whole program\<close>

text \<open>
  External programs for the example runs: \<^verbatim>\<open>osmium export\<close> writes the
  schools collection, \<^verbatim>\<open>ogr2ogr\<close> writes the given roads collection,
  \<^verbatim>\<open>tippecanoe\<close> writes a tile archive, and every command succeeds; or every
  command fails with the same exit code and touches nothing.
\<close>

definition demo_tool :: "json \<Rightarrow> tool" where
  "demo_tool mrn args fs =
     (if take 2 args = [''osmium'', ''export''] \<and> length args = 6
      then (0, fs(args ! 5 \<mapsto> JsonFile schools_collection))
      else if take 1 args = [''ogr2ogr''] \<and> 3 < length args then (0, fs(args ! 3 \<mapsto> JsonFile mrn))
      else if take 1 args = [''tippecanoe''] \<and> 3 < length args then (0, fs(args ! 3 \<mapsto> Blob ''tiles''))
      else (0, fs))"

definition fail_tool :: "int \<Rightarrow> tool" where
  "fail_tool rc args fs = (rc, fs)"

definition demo_world :: world where
  "demo_world = \<lparr>files = Map.empty, out = []\<rparr>"

text \<open>A directory left by an earlier run whose \<^verbatim>\<open>schools.osm.pbf\<close> was deleted by hand.\<close>

definition stale_world :: world where
  "stale_world = \<lparr>files = [''schools.geojson'' \<mapsto> JsonFile schools_collection,
                            ''schools.pmtiles'' \<mapsto> Blob ''old tiles''], out = []\<rparr>"

definition schools_world :: world where
  "schools_world = \<lparr>files = [''schools.geojson'' \<mapsto> JsonFile schools_collection], out = []\<rparr>"

definition demo_mrn :: json where
  "demo_mrn = mrn_collection [mrn_road [(''name1'', JStr ''A414'')] a414_coords]"

definition bad_mrn :: json where
  "bad_mrn = mrn_collection [mrn_road [(''name1'', JStr ''A414'')] (JList [JList [JFloat 1, JStr ''abc'']])]"

lemmas example_defs = example_polygon_def school_feature_def schools_collection_def
  example_line_def mrn_collection_def mrn_road_def a414_coords_def

section \<open>Witnesses: the claims applied at the example inputs\<close>

lemma schools_reduce_run: "remove_extra_properties_json schools_collection = Inr schools_reduced"
  by (simp add: remove_extra_properties_json_def update_features_def reduce_feature_def
      school_feature_def schools_collection_def schools_reduced_def dict_get_def)

lemma mrn_round_facts:
  "round_half_even (32187961532 / 625) = 51500738" "round_half_even (- (1246001 / 10)) = - 124600"
  by (rule round_half_even_eqI, simp add: is_round_half_even_def)+

lemma mrn_clean_run:
  "mrn_clean_json (mrn_collection [mrn_road [(''name1'', JStr ''A414'')] a414_coords]) = Inr mrn_cleaned"
  by (simp add: mrn_clean_json_def update_features_def mrn_feature_def reduce_feature_def
      example_defs mrn_cleaned_def dict_get_def py_round_def mrn_round_facts)

lemma mrn_collection_wf:
  "json_wf (mrn_collection [mrn_road [(''name1'', JStr ''A414'')] a414_coords])"
  by (simp add: example_defs dict_wf_def)

theorem remove_extra_properties_policy_witness:
  "remove_extra_properties_json schools_collection = Inr schools_reduced \<and>
   list_all2 (\<lambda>f f'. \<exists>d p. f = JObj d \<and> map_of d ''properties'' = Some (JObj p) \<and>
       f' = JObj (dict_setitem d ''properties'' (JObj (kept_props ''name'' ''name'' p))))
     (features_of schools_collection) (features_of schools_reduced) \<and>
   feature_reduced ''name'' (hd (features_of schools_reduced))"
proof -
  have ne: "features_of schools_reduced \<noteq> []"
    by (simp add: schools_reduced_def features_of_def)
  from remove_extra_properties_policy [OF schools_reduce_run] ne schools_reduce_run show ?thesis
    by auto
qed

theorem remove_extra_properties_idem_witness:
  "remove_extra_properties_json schools_collection = Inr schools_reduced \<and>
   remove_extra_properties_json schools_reduced = Inr schools_reduced"
  using schools_reduce_run remove_extra_properties_idem [OF schools_reduce_run] by (rule conjI)

theorem remove_extra_properties_keeps_witness:
  "remove_extra_properties_json schools_collection = Inr schools_reduced \<and>
   length (features_of schools_reduced) = length (features_of schools_collection) \<and>
   list_all2 (\<lambda>f f'. \<forall>k. k \<noteq> ''properties'' \<longrightarrow> json_lookup f' k = json_lookup f k)
     (features_of schools_collection) (features_of schools_reduced) \<and>
   json_lookup schools_reduced ''type'' = json_lookup schools_collection ''type''"
  using schools_reduce_run remove_extra_properties_keeps [OF schools_reduce_run] by simp

theorem mrn_clean_result_witness:
  "json_wf (mrn_collection [mrn_road [(''name1'', JStr ''A414'')] a414_coords]) \<and>
   mrn_clean_json (mrn_collection [mrn_road [(''name1'', JStr ''A414'')] a414_coords]) = Inr mrn_cleaned \<and>
   json_lookup mrn_cleaned ''name'' = None \<and> json_lookup mrn_cleaned ''crs'' = None \<and>
   list_all2 (\<lambda>f f'. \<exists>d p g c c' g'. f = JObj d \<and> map_of d ''properties'' = Some (JObj p) \<and>
       map_of d ''geometry'' = Some g \<and> json_lookup g ''coordinates'' = Some c \<and>
       trim_precision c = Inr c' \<and>
       json_lookup f' ''properties'' = Some (JObj (kept_props ''name1'' ''name'' p)) \<and>
       json_lookup f' ''geometry'' = Some g' \<and> json_lookup g' ''coordinates'' = Some c')
     (features_of (mrn_collection [mrn_road [(''name1'', JStr ''A414'')] a414_coords]))
     (features_of mrn_cleaned)"
  using mrn_collection_wf mrn_clean_run mrn_clean_result [OF mrn_collection_wf mrn_clean_run]
  by blast

theorem mrn_clean_not_idempotent_witness:
  "json_wf (mrn_collection [mrn_road [(''name1'', JStr ''A414'')] a414_coords]) \<and>
   mrn_clean_json (mrn_collection [mrn_road [(''name1'', JStr ''A414'')] a414_coords]) = Inr mrn_cleaned \<and>
   mrn_clean_json mrn_cleaned = Inl (KeyError ''name'')"
  using mrn_collection_wf mrn_clean_run mrn_clean_not_idempotent [OF mrn_collection_wf mrn_clean_run]
  by blast

theorem mrn_clean_missing_metadata_witness:
  "map_of [(''features'', JList [])] ''name'' = None \<and>
   mrn_clean_json (JObj [(''features'', JList [])]) = Inl (KeyError ''name'') \<and>
   map_of [(''name'', JStr ''mrn''), (''features'', JList [])] ''name'' \<noteq> None \<and>
   map_of [(''name'', JStr ''mrn''), (''features'', JList [])] ''crs'' = None \<and>
   mrn_clean_json (JObj [(''name'', JStr ''mrn''), (''features'', JList [])]) = Inl (KeyError ''crs'')"
  using mrn_clean_missing_metadata [of "[(''features'', JList [])]"]
    mrn_clean_missing_metadata [of "[(''name'', JStr ''mrn''), (''features'', JList [])]"]
  by simp

theorem remove_extra_properties_null_properties_witness:
  "json_lookup (JObj [(''features'', JList [JObj [(''properties'', JNull)]])]) ''features''
     = Some (JList ([] @ JObj [(''properties'', JNull)] # [])) \<and>
   json_lookup (JObj [(''properties'', JNull)]) ''properties'' = Some JNull \<and>
   remove_extra_properties_json (JObj [(''features'', JList [JObj [(''properties'', JNull)]])])
     = Inl (AttributeError ''NoneType'')"
proof -
  have h1: "json_lookup (JObj [(''features'', JList [JObj [(''properties'', JNull)]])]) ''features''
     = Some (JList ([] @ JObj [(''properties'', JNull)] # []))" by simp
  have h2: "\<forall>x \<in> set []. \<exists>y. reduce_feature ''name'' ''name'' x = Inr y" by simp
  have h3: "json_lookup (JObj [(''properties'', JNull)]) ''properties'' = Some JNull" by simp
  show ?thesis using h1 h2 h3 remove_extra_properties_null_properties [OF h1 h2 h3] by blast
qed

lemma a414_trim_run:
  "trim_precision a414_coords = Inr (JList [JList [JFloat (51500738 / 10 ^ 6), JFloat (- 1246 / 10 ^ 4)]])"
  by (simp add: a414_coords_def py_round_def mrn_round_facts)

theorem trim_precision_shape_witness:
  "trim_precision a414_coords = Inr (JList [JList [JFloat (51500738 / 10 ^ 6), JFloat (- 1246 / 10 ^ 4)]]) \<and>
   json_shape (JList [JList [JFloat (51500738 / 10 ^ 6), JFloat (- 1246 / 10 ^ 4)]]) = json_shape a414_coords"
  using a414_trim_run trim_precision_shape [OF a414_trim_run] by (rule conjI)

theorem trim_precision_idem_witness:
  "trim_precision a414_coords = Inr (JList [JList [JFloat (51500738 / 10 ^ 6), JFloat (- 1246 / 10 ^ 4)]]) \<and>
   trim_precision (JList [JList [JFloat (51500738 / 10 ^ 6), JFloat (- 1246 / 10 ^ 4)]]) =
     Inr (JList [JList [JFloat (51500738 / 10 ^ 6), JFloat (- 1246 / 10 ^ 4)]])"
  using a414_trim_run trim_precision_idem [OF a414_trim_run] by (rule conjI)

theorem trim_precision_succeeds_iff_witness:
  "coords_ok a414_coords \<and> (\<exists>j'. trim_precision a414_coords = Inr j') \<and>
   \<not> coords_ok (JList [JStr ''abc'']) \<and> \<not> (\<exists>j'. trim_precision (JList [JStr ''abc'']) = Inr j')"
  using trim_precision_succeeds_iff [of a414_coords] trim_precision_succeeds_iff [of "JList [JStr ''abc'']"]
  by (simp add: a414_coords_def)

theorem trim_precision_error_bound_witness:
  "trim_precision a414_coords = Inr (JList [JList [JFloat (51500738 / 10 ^ 6), JFloat (- 1246 / 10 ^ 4)]]) \<and>
   list_all2 (\<lambda>a b. \<bar>b - a\<bar> \<le> 1 / (2 * 10 ^ 6)) (float_leaves a414_coords)
     (float_leaves (JList [JList [JFloat (51500738 / 10 ^ 6), JFloat (- 1246 / 10 ^ 4)]]))"
  using a414_trim_run trim_precision_error_bound [OF a414_trim_run] by (rule conjI)

theorem round_half_even_iff_witness:
  "is_round_half_even (5 / 2) 2 \<and> round_half_even (5 / 2) = 2"
proof -
  have h: "is_round_half_even (5 / 2) 2" by (simp add: is_round_half_even_def)
  with round_half_even_iff [of "5 / 2" 2] show ?thesis by simp
qed

section \<open>The example runs of the whole program\<close>

lemmas run_defs = main_def generatePolygonAmenity_def makeMRN_def mrn_convert_def
  makeParliamentaryConstituencies_def remove_extra_properties_def run_apply
  cleanup_Remove_missing read_json_def write_json_def py_print_def

lemma demo_amenity_run:
  "files w (f @ ''.osm.pbf'') = None \<Longrightarrow>
   generatePolygonAmenity (demo_tool m) osm a f w =
     (Inr (), w\<lparr>files := (files w)(f @ ''.geojson'' \<mapsto> JsonFile schools_reduced,
                                   f @ ''.pmtiles'' \<mapsto> Blob ''tiles''),
               out := out w @ amenity_log osm a f\<rparr>)"
  by (simp add: run_defs demo_tool_def schools_reduce_run amenity_log_def del: cleanup.simps)

lemma demo_mrn_run:
  "files w ''Major_Road_Network_2018_Open_Roads.zip'' = None \<Longrightarrow>
   makeMRN (demo_tool demo_mrn) w =
     (Inr (), w\<lparr>files := (files w)(''mrn/mrn.geojson'' \<mapsto> JsonFile mrn_cleaned,
                                   ''mrn.pmtiles'' \<mapsto> Blob ''tiles''),
               out := out w @ mrn_convert_log @ [mrn_tiles_line]\<rparr>)"
  by (simp add: run_defs demo_tool_def demo_mrn_def mrn_clean_run mrn_convert_log_def
      mrn_tiles_line_def del: cleanup.simps)

lemma demo_constituencies_run:
  "files w ''boundary_lines.zip'' = None \<Longrightarrow>
   makeParliamentaryConstituencies (demo_tool m) w =
     (Inr (), w\<lparr>files := (files w)(''boundary_lines/parliamentary_constituencies.geojson'' \<mapsto> JsonFile m,
                                   ''parliamentary_constituencies.pmtiles'' \<mapsto> Blob ''tiles''),
               out := out w @ constituencies_log\<rparr>)"
  by (simp add: run_defs demo_tool_def constituencies_log_def del: cleanup.simps)

lemmas demo_runs = demo_amenity_run demo_mrn_run demo_constituencies_run

theorem main_output_order_witness:
  "out (snd (main (demo_tool demo_mrn) ''england-latest.osm.pbf'' demo_world)) =
     main_log ''england-latest.osm.pbf'' \<and>
   (\<exists>pre. out (snd (main (fail_tool 2) ''england-latest.osm.pbf'' demo_world)) =
     pre @ [''> osmium tags-filter england-latest.osm.pbf nwr/amenity=school -o schools.osm.pbf''])"
proof
  obtain new where o: "out (snd (main (demo_tool demo_mrn) ''england-latest.osm.pbf'' demo_world)) =
      out demo_world @ new"
    and l: "logged (main_log ''england-latest.osm.pbf'')
      (fst (main (demo_tool demo_mrn) ''england-latest.osm.pbf'' demo_world)) new"
    using logsD [OF main_output_order] by blast
  have "fst (main (demo_tool demo_mrn) ''england-latest.osm.pbf'' demo_world) = Inr ()"
    by (simp add: main_def demo_runs demo_world_def)
  with l have "new = main_log ''england-latest.osm.pbf''" by (simp add: logged_def)
  with o show "out (snd (main (demo_tool demo_mrn) ''england-latest.osm.pbf'' demo_world)) =
      main_log ''england-latest.osm.pbf''" by (simp add: demo_world_def)
next
  let ?A = "[''osmium'', ''tags-filter'', ''england-latest.osm.pbf'', ''nwr/amenity=school'', ''-o'',
             ''schools.osm.pbf'']"
  obtain new where o: "out (snd (main (fail_tool 2) ''england-latest.osm.pbf'' demo_world)) =
      out demo_world @ new"
    and l: "logged (main_log ''england-latest.osm.pbf'')
      (fst (main (fail_tool 2) ''england-latest.osm.pbf'' demo_world)) new"
    using logsD [OF main_output_order] by blast
  have "fst (main (fail_tool 2) ''england-latest.osm.pbf'' demo_world) = Inl (CalledProcessError 2 ?A)"
    by (simp add: main_def generatePolygonAmenity_def run_apply cleanup_Remove_missing fail_tool_def
        demo_world_def del: cleanup.simps)
  with l obtain pre where "new = pre @ [''> '' @ py_join '' '' ?A]"
    by (auto simp: logged_def)
  with o show "\<exists>pre. out (snd (main (fail_tool 2) ''england-latest.osm.pbf'' demo_world)) =
      pre @ [''> osmium tags-filter england-latest.osm.pbf nwr/amenity=school -o schools.osm.pbf'']"
    by (simp add: demo_world_def)
qed

theorem main_tool_failure_status_witness:
  "fst (main (fail_tool 2) ''england-latest.osm.pbf'' demo_world) =
     Inl (CalledProcessError 2 [''osmium'', ''tags-filter'', ''england-latest.osm.pbf'',
                                ''nwr/amenity=school'', ''-o'', ''schools.osm.pbf'']) \<and>
   exit_status (fst (main (fail_tool 2) ''england-latest.osm.pbf'' demo_world)) = 1"
  by (rule main_tool_failure_status) (simp_all add: fail_tool_def)

theorem amenity_failed_run_keeps_old_tiles_witness:
  "fst (generatePolygonAmenity (fail_tool 1) ''england-latest.osm.pbf'' ''school'' ''schools'' stale_world) =
     Inl (CalledProcessError 1 [''osmium'', ''tags-filter'', ''england-latest.osm.pbf'',
                                ''nwr/amenity=school'', ''-o'', ''schools.osm.pbf'']) \<and>
   files (snd (generatePolygonAmenity (fail_tool 1) ''england-latest.osm.pbf'' ''school'' ''schools''
     stale_world)) ''schools.pmtiles'' = Some (Blob ''old tiles'')"
proof -
  have "files stale_world (''schools'' @ ''.osm.pbf'') = None"
    by (simp add: stale_world_def)
  moreover have "fail_tool 1 [''osmium'', ''tags-filter'', ''england-latest.osm.pbf'', ''nwr/amenity='' @ ''school'',
      ''-o'', ''schools'' @ ''.osm.pbf''] (files stale_world) = (1, files stale_world)"
    by (simp add: fail_tool_def)
  ultimately show ?thesis
    using amenity_failed_run_keeps_old_tiles [of stale_world "''schools''" "fail_tool 1"
        "''england-latest.osm.pbf''" "''school''" 1]
    by (simp add: stale_world_def)
qed

theorem cleanup_removes_present_witness:
  "cleanup (map Remove [''schools.geojson'', ''schools.pmtiles'']) stale_world =
     (Inr (), stale_world\<lparr>files := Map.empty\<rparr>)"
proof -
  have "cleanup (map Remove [''schools.geojson'', ''schools.pmtiles'']) stale_world =
      (Inr (), stale_world\<lparr>files := \<lambda>q. if q \<in> set [''schools.geojson'', ''schools.pmtiles''] then None
                                     else files stale_world q\<rparr>)"
    by (rule cleanup_removes_present) (simp_all add: stale_world_def)
  then show ?thesis by (simp add: stale_world_def fun_eq_iff)
qed

lemma bad_mrn_run:
  "fst (makeMRN (demo_tool bad_mrn) demo_world) = Inl (DataShapeError (JStr ''abc''))"
  by (simp add: run_defs demo_world_def demo_tool_def bad_mrn_def mrn_clean_json_def
      update_features_def mrn_feature_def reduce_feature_def example_defs dict_get_def
      del: cleanup.simps)

theorem makeMRN_shape_error_skips_tiles_witness:
  "mrn_tiles_line \<notin> set (out (snd (makeMRN (demo_tool bad_mrn) demo_world)))"
  using conjunct2 [OF makeMRN_shape_error_skips_tiles [OF bad_mrn_run]] by (simp add: demo_world_def)

theorem remove_extra_properties_in_place_witness:
  "files (snd (remove_extra_properties ''schools.geojson'' schools_world)) ''schools.geojson'' =
     Some (JsonFile schools_reduced)"
proof -
  have "fst (remove_extra_properties ''schools.geojson'' schools_world) = Inr ()"
    by (simp add: run_defs schools_world_def schools_reduce_run)
  from remove_extra_properties_in_place [OF this] show ?thesis
    by (auto simp: schools_world_def schools_reduce_run)
qed

theorem remove_extra_properties_failure_atomic_witness:
  "files (snd (remove_extra_properties ''schools.geojson''
     (schools_world\<lparr>files := [''schools.geojson'' \<mapsto> JsonFile (JList [])]\<rparr>))) =
   [''schools.geojson'' \<mapsto> JsonFile (JList [])]"
proof -
  have "fst (remove_extra_properties ''schools.geojson''
      (schools_world\<lparr>files := [''schools.geojson'' \<mapsto> JsonFile (JList [])]\<rparr>)) =
      Inl (TypeError ''list'')"
    by (simp add: run_defs remove_extra_properties_json_def update_features_def)
  from remove_extra_properties_failure_atomic [OF this] show ?thesis by simp
qed

lemma demo_tool_confined: "tool_confined (demo_tool m)"
  unfolding tool_confined_def
proof (intro allI impI)
  fix args fs q
  assume "\<forall>a \<in> set args. \<not> under a q"
  then have i: "\<And>i. i < length args \<Longrightarrow> args ! i \<noteq> q"
    using nth_mem under_refl by metis
  have "3 < length args \<Longrightarrow> args ! 3 \<noteq> q" and "length args = 6 \<Longrightarrow> args ! 5 \<noteq> q"
    by (simp_all add: i)
  then show "snd (demo_tool m args fs) q = fs q"
    by (auto simp: demo_tool_def)
qed

theorem amenity_run_confined_witness:
  "files (snd (generatePolygonAmenity (demo_tool demo_mrn) ''england-latest.osm.pbf'' ''school'' ''schools''
     (stale_world\<lparr>files := (files stale_world)(''hospitals.pmtiles'' \<mapsto> Blob ''hospital tiles'')\<rparr>)))
     ''hospitals.pmtiles'' = Some (Blob ''hospital tiles'')"
proof -
  have "\<forall>p \<in> set (amenity_args ''england-latest.osm.pbf'' ''school'' ''schools''). \<not> under p ''hospitals.pmtiles''"
    by (simp add: amenity_args_def under_def)
  from amenity_run_confined [OF demo_tool_confined this] show ?thesis by simp
qed

end
